theory Spec2Isabelle
  imports Complex_Main "HOL-Library.AList"
begin

section \<open>JavaScript values\<close>

text \<open>
  Event payloads of \<^verbatim>\<open>server.js\<close> are duck-typed JavaScript objects. A value is a
  primitive, an array or an object; an object is the list of its own fields, read with
  \<open>map_of\<close>. Numbers are rationals (playback positions are fractional seconds, clock
  readings are integral milliseconds); NaN and the infinities are not modelled.
  Room ids are primitive values (strings in the protocol): the keys of the three room maps
  and the names of the transport's rooms are compared structurally, which on primitives is
  the comparison a JavaScript \<^verbatim>\<open>Map\<close> makes. An object or an array sent as a room id
  lies outside the model: JavaScript compares it by reference, and the transport takes an
  array for a list of rooms. A payload is an object; \<^verbatim>\<open>null\<close> and \<^verbatim>\<open>undefined\<close>, on
  which destructuring throws, are not payloads.
\<close>

datatype jsval =
    Undefined
  | Null
  | Bool bool
  | Num rat
  | Str string
  | Arr "jsval list"
  | Obj "(string \<times> jsval) list"

type_synonym obj = "(string \<times> jsval) list"

text \<open>What \<^verbatim>\<open>!v\<close>, \<^verbatim>\<open>if (v)\<close>, \<^verbatim>\<open>a && b\<close> and \<^verbatim>\<open>a || b\<close> test.\<close>

fun truthy :: "jsval \<Rightarrow> bool" where
  "truthy Undefined = False"
| "truthy Null = False"
| "truthy (Bool b) = b"
| "truthy (Num n) = (n \<noteq> 0)"
| "truthy (Str s) = (s \<noteq> [])"
| "truthy (Arr xs) = True"
| "truthy (Obj fs) = True"

text \<open>\<^verbatim>\<open>a || b\<close>\<close>

definition js_or :: "jsval \<Rightarrow> jsval \<Rightarrow> jsval" where
  "js_or a b = (if truthy a then a else b)"

text \<open>Destructuring \<^verbatim>\<open>const { k } = data\<close>: an absent field reads as undefined.\<close>

definition get :: "obj \<Rightarrow> string \<Rightarrow> jsval" where
  "get data k = (case map_of data k of None \<Rightarrow> Undefined | Some v \<Rightarrow> v)"

text \<open>\<^verbatim>\<open>v.k\<close> on a value that is not null or undefined.\<close>

fun get_field :: "jsval \<Rightarrow> string \<Rightarrow> jsval" where
  "get_field (Obj fs) k = get fs k"
| "get_field v k = Undefined"

text \<open>
  \<^verbatim>\<open>v.k = x\<close> on a truthy value: an object gets the field, and on a primitive the
  assignment is silently lost (the module is not in strict mode). A named property put
  on an array is not one of its elements, which are all that \<open>Arr\<close> holds.
\<close>

fun set_field :: "jsval \<Rightarrow> string \<Rightarrow> jsval \<Rightarrow> jsval" where
  "set_field (Obj fs) k x = Obj (AList.update k x fs)"
| "set_field v k x = v"

section \<open>Server state\<close>

text \<open>The value stored by \<^verbatim>\<open>rooms.set(roomId, {id, createdAt, users})\<close>.\<close>

record room =
  room_id :: jsval
  createdAt :: int
  users :: "(string \<times> jsval) list"

text \<open>
  The value stored in \<^verbatim>\<open>roomVideoStates\<close>. \<open>lastUpdated\<close> is \<^verbatim>\<open>null\<close> (\<open>None\<close>) or a
  reading of \<^verbatim>\<open>Date.now()\<close>; \<open>currentTime\<close> holds whatever the client sent as \<^verbatim>\<open>time\<close>.
\<close>

record video_state =
  vtype :: jsval
  videoId :: jsval
  videoUrl :: jsval
  currentTime :: jsval
  isPlaying :: bool
  lastUpdated :: "int option"
  lastUpdatedBy :: jsval

text \<open>\<^verbatim>\<open>socket.data\<close> of one connection.\<close>

record socket_data =
  data_roomId :: jsval
  data_user :: jsval

text \<open>
  The three module-level maps, the data of the connected sockets, and the room membership
  kept by the transport (\<^verbatim>\<open>socket.join\<close>, \<^verbatim>\<open>socket.leave\<close>). A presence set is a
  JavaScript \<^verbatim>\<open>Map\<close> from socket id to user, kept in insertion order.
\<close>

record server =
  rooms :: "jsval \<rightharpoonup> room"
  roomVideoStates :: "jsval \<rightharpoonup> video_state"
  roomUsers :: "jsval \<rightharpoonup> (string \<times> jsval) list"
  sockets :: "string \<rightharpoonup> socket_data"
  members :: "jsval \<Rightarrow> string set"

definition init :: server where
  "init = \<lparr>rooms = Map.empty, roomVideoStates = Map.empty, roomUsers = Map.empty,
           sockets = Map.empty, members = (\<lambda>r. {})\<rparr>"

text \<open>
  An emitted event: \<^verbatim>\<open>socket.emit\<close> (the sender only), \<^verbatim>\<open>socket.to(r).emit\<close> (the sockets
  joined to \<open>r\<close> except the sender), \<^verbatim>\<open>io.to(r).emit\<close> (all sockets joined to \<open>r\<close>).
\<close>

datatype audience = ToSender | ToRoomExceptSender jsval | ToRoom jsval

type_synonym emit = "audience \<times> string \<times> obj"

fun recipients :: "server \<Rightarrow> string \<Rightarrow> audience \<Rightarrow> string set" where
  "recipients s c ToSender = {c}"
| "recipients s c (ToRoomExceptSender r) = members s r - {c}"
| "recipients s c (ToRoom r) = members s r"

definition present :: "server \<Rightarrow> jsval \<Rightarrow> string set" where
  "present s r = (case roomUsers s r of None \<Rightarrow> {} | Some us \<Rightarrow> fst ` set us)"

section \<open>Handlers\<close>

definition fresh_video_state :: video_state where
  "fresh_video_state = \<lparr>vtype = Null, videoId = Null, videoUrl = Null, currentTime = Num 0,
     isPlaying = False, lastUpdated = None, lastUpdatedBy = Null\<rparr>"

text \<open>\<^verbatim>\<open>initializeRoom(roomId)\<close>; \<open>date\<close> is the reading of \<^verbatim>\<open>new Date()\<close>.\<close>

definition initializeRoom :: "jsval \<Rightarrow> int \<Rightarrow> server \<Rightarrow> server" where
  "initializeRoom roomId date s =
     (let s1 = (if rooms s roomId = None
                then s\<lparr>rooms := (rooms s)(roomId \<mapsto> \<lparr>room_id = roomId, createdAt = date, users = []\<rparr>)\<rparr>
                else s);
          s2 = (if roomVideoStates s1 roomId = None
                then s1\<lparr>roomVideoStates := (roomVideoStates s1)(roomId \<mapsto> fresh_video_state)\<rparr>
                else s1);
          s3 = (if roomUsers s2 roomId = None
                then s2\<lparr>roomUsers := (roomUsers s2)(roomId \<mapsto> [])\<rparr>
                else s2)
      in s3)"

definition error_emit :: "string \<Rightarrow> emit" where
  "error_emit msg = (ToSender, ''error'', [(''message'', Str msg)])"

text \<open>The object a VideoState is when it is sent in \<^verbatim>\<open>room-joined\<close>.\<close>

definition video_state_obj :: "video_state \<Rightarrow> jsval" where
  "video_state_obj v = Obj
     [(''type'', vtype v), (''videoId'', videoId v), (''videoUrl'', videoUrl v),
      (''currentTime'', currentTime v), (''isPlaying'', Bool (isPlaying v)),
      (''lastUpdated'', (case lastUpdated v of None \<Rightarrow> Null | Some t \<Rightarrow> Num (of_int t))),
      (''lastUpdatedBy'', lastUpdatedBy v)]"

definition count :: "'a list \<Rightarrow> jsval" where
  "count xs = Num (of_nat (length xs))"

text \<open>
  The \<^verbatim>\<open>join-room\<close> handler of socket \<open>c\<close>. After \<open>initializeRoom\<close> both lookups succeed
  (lemmas \<open>initializeRoom_roomUsers\<close> and \<open>initializeRoom_roomVideoStates\<close>), so the \<open>None\<close>
  branches, where JavaScript would throw, are never taken.
\<close>

definition join_room :: "server \<Rightarrow> string \<Rightarrow> obj \<Rightarrow> int \<Rightarrow> server \<times> emit list" where
  "join_room s c data date =
     (let user = get data ''user''; roomId = get data ''roomId'' in
      if \<not> truthy user \<or> \<not> truthy roomId then (s, [error_emit ''Invalid join data''])
      else
        let s1 = initializeRoom roomId date s;
            user' = set_field user ''socketId'' (Str c)
        in case roomUsers s1 roomId of
             None \<Rightarrow> (s1, [])
           | Some us \<Rightarrow>
               let us' = AList.update c user' us;
                   s2 = s1\<lparr>roomUsers := (roomUsers s1)(roomId \<mapsto> us'),
                          members := (members s1)(roomId := insert c (members s1 roomId)),
                          sockets := (sockets s1)(c \<mapsto> \<lparr>data_roomId = roomId, data_user = user'\<rparr>)\<rparr>;
                   currentVideoState =
                     (case roomVideoStates s2 roomId of None \<Rightarrow> Undefined
                      | Some v \<Rightarrow> video_state_obj v);
                   usersInRoom = map snd us'
               in (s2,
                   [(ToSender, ''room-joined'',
                       [(''roomId'', roomId), (''userCount'', count usersInRoom),
                        (''currentVideoState'', currentVideoState), (''users'', Arr usersInRoom)]),
                    (ToRoomExceptSender roomId, ''user-joined'',
                       [(''user'', user'), (''userCount'', count usersInRoom),
                        (''users'', Arr usersInRoom)])]))"

text \<open>
  The \<^verbatim>\<open>video-load\<close> handler. \<open>date\<close> is the reading of \<^verbatim>\<open>new Date()\<close> in
  \<open>initializeRoom\<close>, \<open>t_stamp\<close> and \<open>t_emit\<close> the two readings of \<^verbatim>\<open>Date.now()\<close>.
\<close>

definition video_load :: "server \<Rightarrow> string \<Rightarrow> obj \<Rightarrow> int \<Rightarrow> int \<Rightarrow> int \<Rightarrow> server \<times> emit list" where
  "video_load s c data date t_stamp t_emit =
     (let roomId = get data ''roomId''; type = get data ''type''; vid = get data ''videoId'';
          url = get data ''videoUrl''; userId = get data ''userId'' in
      if \<not> truthy roomId \<or> \<not> truthy userId \<or> \<not> truthy type
      then (s, [error_emit ''Invalid video load data''])
      else
        let s1 = initializeRoom roomId date s
        in case roomVideoStates s1 roomId of
             None \<Rightarrow> (s1, [])
           | Some currentState \<Rightarrow>
               (s1\<lparr>roomVideoStates := (roomVideoStates s1)(roomId \<mapsto>
                      currentState\<lparr>vtype := type, videoId := vid, videoUrl := url,
                        currentTime := Num 0, isPlaying := False,
                        lastUpdated := Some t_stamp, lastUpdatedBy := userId\<rparr>)\<rparr>,
                [(ToRoom roomId, ''video-load'',
                    [(''type'', type), (''videoId'', vid), (''videoUrl'', url),
                     (''userId'', userId), (''timestamp'', Num (of_int t_emit))])]))"

text \<open>\<^verbatim>\<open>currentState.lastUpdated && now - currentState.lastUpdated < 300\<close>\<close>

definition debounced :: "video_state \<Rightarrow> int \<Rightarrow> bool" where
  "debounced v now = (case lastUpdated v of None \<Rightarrow> False | Some t \<Rightarrow> t \<noteq> 0 \<and> now - t < 300)"

text \<open>The \<^verbatim>\<open>switch(action)\<close> of the \<^verbatim>\<open>video-action\<close> handler.\<close>

definition apply_action :: "jsval \<Rightarrow> jsval \<Rightarrow> video_state \<Rightarrow> video_state" where
  "apply_action action time v =
     (if action = Str ''play''
        then v\<lparr>currentTime := js_or time (currentTime v), isPlaying := True\<rparr>
      else if action = Str ''pause''
        then v\<lparr>currentTime := js_or time (currentTime v), isPlaying := False\<rparr>
      else if action = Str ''seek''
        then v\<lparr>currentTime := time\<rparr>
      else if action = Str ''restart''
        then v\<lparr>currentTime := Num 0, isPlaying := True\<rparr>
      else v)"

text \<open>The \<^verbatim>\<open>video-action\<close> handler; \<open>now\<close> is its one reading of \<^verbatim>\<open>Date.now()\<close>.\<close>

definition video_action :: "server \<Rightarrow> string \<Rightarrow> obj \<Rightarrow> int \<Rightarrow> server \<times> emit list" where
  "video_action s c data now =
     (let roomId = get data ''roomId''; action = get data ''action''; time = get data ''time'';
          userId = get data ''userId'' in
      if \<not> truthy roomId \<or> \<not> truthy userId
      then (s, [error_emit ''Invalid video action data''])
      else case roomVideoStates s roomId of
             None \<Rightarrow> (s, [error_emit ''Room not found''])
           | Some currentState \<Rightarrow>
               if debounced currentState now then (s, [])
               else
                 (s\<lparr>roomVideoStates := (roomVideoStates s)(roomId \<mapsto>
                      (apply_action action time currentState)
                        \<lparr>lastUpdated := Some now, lastUpdatedBy := userId\<rparr>)\<rparr>,
                  [(ToRoomExceptSender roomId, ''video-action'',
                      AList.update ''timestamp'' (Num (of_int now)) data)]))"

text \<open>The \<^verbatim>\<open>chat-message\<close> handler.\<close>

definition chat_message :: "server \<Rightarrow> string \<Rightarrow> obj \<Rightarrow> int \<Rightarrow> server \<times> emit list" where
  "chat_message s c data now =
     (let roomId = get data ''roomId''; user = get data ''user''; message = get data ''message'' in
      if \<not> truthy roomId \<or> \<not> truthy user \<or> \<not> truthy message
      then (s, [error_emit ''Invalid chat message''])
      else (s, [(ToRoom roomId, ''chat-message'',
                   [(''user'', user), (''message'', message), (''timestamp'', Num (of_int now))])]))"

text \<open>The three signaling handlers; none of them validates its payload.\<close>

definition offer :: "server \<Rightarrow> string \<Rightarrow> obj \<Rightarrow> server \<times> emit list" where
  "offer s c data =
     (s, [(ToRoomExceptSender (get data ''roomId''), ''offer'',
            [(''offer'', get data ''offer''), (''from'', Str c)])])"

definition answer :: "server \<Rightarrow> string \<Rightarrow> obj \<Rightarrow> server \<times> emit list" where
  "answer s c data =
     (s, [(ToRoomExceptSender (get data ''roomId''), ''answer'',
            [(''answer'', get data ''answer''), (''from'', Str c)])])"

definition ice_candidate :: "server \<Rightarrow> string \<Rightarrow> obj \<Rightarrow> server \<times> emit list" where
  "ice_candidate s c data =
     (s, [(ToRoomExceptSender (get data ''roomId''), ''ice-candidate'',
            [(''candidate'', get data ''candidate''), (''from'', Str c)])])"

text \<open>
  What \<^verbatim>\<open>leave-room\<close> and \<^verbatim>\<open>disconnect\<close> do once the presence set \<open>us\<close> of \<open>roomId\<close> is
  found: delete the entry of \<open>c\<close>, tell the others, and delete the three entries of the
  room when nobody remains.
\<close>

definition remove_user :: "server \<Rightarrow> string \<Rightarrow> jsval \<Rightarrow> (string \<times> jsval) list \<Rightarrow> jsval \<Rightarrow> server \<times> emit list" where
  "remove_user s c roomId us userName =
     (let remainingUsers = AList.delete c us;
          out = [(ToRoomExceptSender roomId, ''user-left'',
                   [(''userName'', userName), (''userCount'', count remainingUsers),
                    (''users'', Arr (map snd remainingUsers))])]
      in if length remainingUsers = 0
         then (s\<lparr>rooms := (rooms s)(roomId := None),
                 roomVideoStates := (roomVideoStates s)(roomId := None),
                 roomUsers := (roomUsers s)(roomId := None)\<rparr>, out)
         else (s\<lparr>roomUsers := (roomUsers s)(roomId \<mapsto> remainingUsers)\<rparr>, out))"

text \<open>The \<^verbatim>\<open>leave-room\<close> handler; \<^verbatim>\<open>user?.name || 'Unknown'\<close> is the name it reports.\<close>

definition leave_room :: "server \<Rightarrow> string \<Rightarrow> obj \<Rightarrow> server \<times> emit list" where
  "leave_room s c data =
     (let userId = get data ''userId''; roomId = get data ''roomId'' in
      if \<not> truthy roomId \<or> \<not> truthy userId then (s, [error_emit ''Invalid leave room data''])
      else
        let (s1, out) =
              (case roomUsers s roomId of
                 None \<Rightarrow> (s, [])
               | Some us \<Rightarrow>
                   let userName =
                         js_or (case map_of us c of None \<Rightarrow> Undefined | Some u \<Rightarrow>
                                  (if u = Undefined \<or> u = Null then Undefined else get_field u ''name''))
                               (Str ''Unknown'')
                   in remove_user s c roomId us userName)
        in (s1\<lparr>members := (members s1)(roomId := members s1 roomId - {c})\<rparr>, out))"

text \<open>
  The \<^verbatim>\<open>disconnect\<close> handler, followed by what the transport does with a closed socket:
  it leaves every room and is no longer connected.
\<close>

definition disconnect :: "server \<Rightarrow> string \<Rightarrow> server \<times> emit list" where
  "disconnect s c =
     (let (roomId, user) = (case sockets s c of None \<Rightarrow> (Undefined, Undefined)
                            | Some d \<Rightarrow> (data_roomId d, data_user d));
          (s1, out) =
            (if truthy roomId \<and> truthy user
             then (case roomUsers s roomId of
                     None \<Rightarrow> (s, [])
                   | Some us \<Rightarrow> remove_user s c roomId us (get_field user ''name''))
             else (s, []))
      in (s1\<lparr>sockets := (sockets s1)(c := None),
              members := (\<lambda>r. members s1 r - {c})\<rparr>, out))"

text \<open>A new connection: empty \<^verbatim>\<open>socket.data\<close>, joined to the room named by its own id.\<close>

definition connect :: "server \<Rightarrow> string \<Rightarrow> server" where
  "connect s c =
     s\<lparr>sockets := (sockets s)(c \<mapsto> \<lparr>data_roomId = Undefined, data_user = Undefined\<rparr>),
       members := (members s)(Str c := insert c (members s (Str c)))\<rparr>"

section \<open>Events and reachable states\<close>

datatype event =
    Connect string
  | JoinRoom string obj int
  | VideoLoad string obj int int int
  | VideoAction string obj int
  | ChatMessage string obj int
  | Offer string obj
  | Answer string obj
  | IceCandidate string obj
  | LeaveRoom string obj
  | Disconnect string

text \<open>
  One event handled to completion. Only a connected socket sends events, and a
  connection gets an id that no connected socket has.
\<close>

fun step :: "server \<Rightarrow> event \<Rightarrow> server \<times> emit list" where
  "step s (Connect c) = (if sockets s c = None then (connect s c, []) else (s, []))"
| "step s (JoinRoom c data date) =
     (if sockets s c = None then (s, []) else join_room s c data date)"
| "step s (VideoLoad c data date t_stamp t_emit) =
     (if sockets s c = None then (s, []) else video_load s c data date t_stamp t_emit)"
| "step s (VideoAction c data now) =
     (if sockets s c = None then (s, []) else video_action s c data now)"
| "step s (ChatMessage c data now) =
     (if sockets s c = None then (s, []) else chat_message s c data now)"
| "step s (Offer c data) = (if sockets s c = None then (s, []) else offer s c data)"
| "step s (Answer c data) = (if sockets s c = None then (s, []) else answer s c data)"
| "step s (IceCandidate c data) =
     (if sockets s c = None then (s, []) else ice_candidate s c data)"
| "step s (LeaveRoom c data) = (if sockets s c = None then (s, []) else leave_room s c data)"
| "step s (Disconnect c) = (if sockets s c = None then (s, []) else disconnect s c)"

text \<open>The states reached from \<open>init\<close> by events that the guard \<open>G\<close> admits.\<close>

inductive reach :: "(server \<Rightarrow> event \<Rightarrow> bool) \<Rightarrow> server \<Rightarrow> bool" for G where
  reach_init: "reach G init"
| reach_step: "reach G s \<Longrightarrow> G s e \<Longrightarrow> reach G (fst (step s e))"

definition reachable :: "server \<Rightarrow> bool" where
  "reachable = reach (\<lambda>s e. True)"

text \<open>The state after a sequence of events.\<close>

definition run :: "server \<Rightarrow> event list \<Rightarrow> server" where
  "run = foldl (\<lambda>s e. fst (step s e))"

text \<open>The guard \<open>G\<close> admits every event of the sequence, in the state it is handled in.\<close>

fun admitted :: "(server \<Rightarrow> event \<Rightarrow> bool) \<Rightarrow> server \<Rightarrow> event list \<Rightarrow> bool" where
  "admitted G s [] = True"
| "admitted G s (e # es) = (G s e \<and> admitted G (fst (step s e)) es)"

text \<open>
  What socket \<open>x\<close> receives from a handler run by socket \<open>c\<close>: the events, in order, whose
  audience contains \<open>x\<close>. Every handler joins or leaves rooms so that resolving the
  audiences in the state it returns gives the sockets addressed when it emitted.
\<close>

definition inbox :: "server \<times> emit list \<Rightarrow> string \<Rightarrow> string \<Rightarrow> (string \<times> obj) list" where
  "inbox res c x = map snd (filter (\<lambda>e. x \<in> recipients (fst res) c (fst e)) (snd res))"

text \<open>The three room maps have the same keys.\<close>

definition matching :: "server \<Rightarrow> bool" where
  "matching s = (dom (rooms s) = dom (roomVideoStates s)
                 \<and> dom (roomVideoStates s) = dom (roomUsers s))"

text \<open>The guard of a transport that gives a new connection an id found in no presence set.\<close>

fun fresh_connect :: "server \<Rightarrow> event \<Rightarrow> bool" where
  "fresh_connect s (Connect c) = (\<forall>r. c \<notin> present s r)"
| "fresh_connect s e = True"

text \<open>
  The guard that admits a \<^verbatim>\<open>video-load\<close> passing validation only for a room that has a
  presence set.
\<close>

fun no_lonely_load :: "server \<Rightarrow> event \<Rightarrow> bool" where
  "no_lonely_load s (VideoLoad c data date t_stamp t_emit) =
     (truthy (get data ''roomId'') \<and> truthy (get data ''userId'') \<and> truthy (get data ''type'')
        \<longrightarrow> roomUsers s (get data ''roomId'') \<noteq> None)"
| "no_lonely_load s e = True"

section \<open>Sample sessions\<close>

definition alice :: jsval where
  "alice = Obj [(''name'', Str ''alice'')]"

definition bob :: jsval where
  "bob = Obj [(''name'', Str ''bob'')]"

definition join_data :: "jsval \<Rightarrow> string \<Rightarrow> obj" where
  "join_data u r = [(''user'', u), (''roomId'', Str r)]"

definition load_data :: obj where
  "load_data = [(''roomId'', Str ''r1''), (''type'', Str ''youtube''), (''videoId'', Str ''abc''),
                (''userId'', Str ''u1'')]"

definition action_data :: "string \<Rightarrow> jsval \<Rightarrow> obj" where
  "action_data a t = [(''roomId'', Str ''r1''), (''action'', Str a), (''time'', t),
                      (''userId'', Str ''u1'')]"

definition chat_data :: obj where
  "chat_data = [(''roomId'', Str ''r1''), (''user'', alice), (''message'', Str ''hi'')]"

definition offer_data :: obj where
  "offer_data = [(''roomId'', Str ''r1''), (''offer'', Str ''sdp''), (''timestamp'', Num 5)]"

text \<open>Sockets a and b are both in room r1.\<close>

definition two_joined :: server where
  "two_joined = run init [Connect ''a'', Connect ''b'', JoinRoom ''a'' (join_data alice ''r1'') 100,
                          JoinRoom ''b'' (join_data bob ''r1'') 200]"

text \<open>Then a seeks to second 50 at clock reading 1000.\<close>

definition seeked :: server where
  "seeked = run two_joined [VideoAction ''a'' (action_data ''seek'' (Num 50)) 1000]"

text \<open>Socket a loads a video into a room that nobody has joined.\<close>

definition lonely_load :: server where
  "lonely_load = run init [Connect ''a'', VideoLoad ''a'' load_data 1 2 3]"

text \<open>Socket a joins r1 and then r2.\<close>

definition joined_twice :: server where
  "joined_twice = run init [Connect ''a'', JoinRoom ''a'' (join_data alice ''r1'') 100,
                            JoinRoom ''a'' (join_data alice ''r2'') 200]"

definition leave_data :: obj where
  "leave_data = [(''userId'', Str ''u1''), (''roomId'', Str ''r1'')]"

text \<open>A seek whose payload carries a timestamp of the client's.\<close>

definition stale_action :: obj where
  "stale_action = [(''roomId'', Str ''r1''), (''action'', Str ''seek''), (''time'', Num 9),
                   (''userId'', Str ''u1''), (''timestamp'', Num 5)]"

text \<open>The VideoState of room r1 after the seek at 1000.\<close>

definition seeked_state :: video_state where
  "seeked_state = \<lparr>vtype = Null, videoId = Null, videoUrl = Null, currentTime = Num 50,
     isPlaying = False, lastUpdated = Some 1000, lastUpdatedBy = Str ''u1''\<rparr>"

text \<open>Socket a is connected and has joined nothing.\<close>

definition connected_only :: server where
  "connected_only = run init [Connect ''a'']"

text \<open>Socket a joins r1 alone and loads a video at clock reading 5000.\<close>

definition loaded_alone :: server where
  "loaded_alone = run init [Connect ''a'', JoinRoom ''a'' (join_data alice ''r1'') 100,
                            VideoLoad ''a'' load_data 4999 5000 5001]"

text \<open>Then it leaves, which empties the room.\<close>

definition loaded_then_left :: server where
  "loaded_then_left = run loaded_alone [LeaveRoom ''a'' leave_data]"

text \<open>Socket a, having joined r1 and then r2, disconnects.\<close>

definition closed_after_two_joins :: server where
  "closed_after_two_joins = run joined_twice [Disconnect ''a'']"

section \<open>Facts about the handlers\<close>

lemmas handler_defs = join_room_def video_load_def video_action_def chat_message_def
  offer_def answer_def ice_candidate_def leave_room_def disconnect_def connect_def
  initializeRoom_def remove_user_def

lemmas sample_defs = alice_def bob_def join_data_def load_data_def action_data_def chat_data_def
  offer_data_def leave_data_def

lemma initializeRoom_roomUsers: "roomUsers (initializeRoom r d s) r \<noteq> None"
  by (simp add: initializeRoom_def Let_def)

lemma initializeRoom_roomVideoStates: "roomVideoStates (initializeRoom r d s) r \<noteq> None"
  by (simp add: initializeRoom_def Let_def)

lemma initializeRoom_members [simp]: "members (initializeRoom r d s) = members s"
  by (simp add: initializeRoom_def Let_def)

lemma initializeRoom_sockets [simp]: "sockets (initializeRoom r d s) = sockets s"
  by (simp add: initializeRoom_def Let_def)

lemma initializeRoom_dom:
  "dom (rooms (initializeRoom r d s)) = insert r (dom (rooms s))"
  "dom (roomVideoStates (initializeRoom r d s)) = insert r (dom (roomVideoStates s))"
  "dom (roomUsers (initializeRoom r d s)) = insert r (dom (roomUsers s))"
  by (auto simp add: initializeRoom_def Let_def)

text \<open>A \<^verbatim>\<open>video-load\<close> that passes validation.\<close>

lemma video_load_valid:
  assumes "truthy (get data ''roomId'')" and "truthy (get data ''userId'')"
    and "truthy (get data ''type'')"
  shows "\<exists>v. roomVideoStates (initializeRoom (get data ''roomId'') date s) (get data ''roomId'') = Some v
     \<and> video_load s c data date t_stamp t_emit =
        ((initializeRoom (get data ''roomId'') date s)
           \<lparr>roomVideoStates := (roomVideoStates (initializeRoom (get data ''roomId'') date s))
              (get data ''roomId'' \<mapsto>
                 v\<lparr>vtype := get data ''type'', videoId := get data ''videoId'',
                   videoUrl := get data ''videoUrl'', currentTime := Num 0, isPlaying := False,
                   lastUpdated := Some t_stamp, lastUpdatedBy := get data ''userId''\<rparr>)\<rparr>,
         [(ToRoom (get data ''roomId''), ''video-load'',
            [(''type'', get data ''type''), (''videoId'', get data ''videoId''),
             (''videoUrl'', get data ''videoUrl''), (''userId'', get data ''userId''),
             (''timestamp'', Num (of_int t_emit))])])"
proof -
  obtain v where "roomVideoStates (initializeRoom (get data ''roomId'') date s) (get data ''roomId'') = Some v"
    using initializeRoom_roomVideoStates by blast
  then show ?thesis using assms by (simp add: video_load_def Let_def)
qed

text \<open>A \<^verbatim>\<open>video-action\<close> that passes validation, finds the VideoState and is not debounced.\<close>

lemma video_action_accepted:
  assumes "truthy (get data ''roomId'')" and "truthy (get data ''userId'')"
    and "roomVideoStates s (get data ''roomId'') = Some v"
    and "\<not> debounced v now"
  shows "video_action s c data now =
     (s\<lparr>roomVideoStates := (roomVideoStates s)(get data ''roomId'' \<mapsto>
          (apply_action (get data ''action'') (get data ''time'') v)
            \<lparr>lastUpdated := Some now, lastUpdatedBy := get data ''userId''\<rparr>)\<rparr>,
      [(ToRoomExceptSender (get data ''roomId''), ''video-action'',
        AList.update ''timestamp'' (Num (of_int now)) data)])"
  using assms by (simp add: video_action_def Let_def)

lemma video_action_debounced:
  assumes "truthy (get data ''roomId'')" and "truthy (get data ''userId'')"
    and "roomVideoStates s (get data ''roomId'') = Some v"
    and "debounced v now"
  shows "video_action s c data now = (s, [])"
  using assms by (simp add: video_action_def Let_def)

text \<open>A join leaves the VideoState of an existing room as it is.\<close>

lemma join_room_keeps_video_state:
  assumes "roomVideoStates s r = Some v"
  shows "roomVideoStates (fst (join_room s c data date)) r = Some v"
proof -
  have "roomVideoStates (initializeRoom r' date s) r = Some v" for r'
    using assms by (auto simp add: initializeRoom_def Let_def)
  then show ?thesis using assms
    by (simp add: join_room_def Let_def split: option.splits)
qed

text \<open>What holds of play and pause: a truthy time is stored, an absent one keeps the position.\<close>

lemma play_pause_truthy_time:
  assumes "action = Str ''play'' \<or> action = Str ''pause''"
  shows "isPlaying (apply_action action time v) = (action = Str ''play'')"
    and "truthy time \<Longrightarrow> currentTime (apply_action action time v) = time"
    and "time = Undefined \<Longrightarrow> currentTime (apply_action action time v) = currentTime v"
  using assms by (auto simp add: apply_action_def js_or_def)

lemma video_action_events:
  "e \<in> set (snd (video_action s c data now)) \<Longrightarrow>
     fst e = ToSender \<and> fst (snd e) = ''error''
     \<or> fst e = ToRoomExceptSender (get data ''roomId'')"
  by (auto simp add: video_action_def Let_def error_emit_def split: option.splits if_splits)

lemma video_load_sockets [simp]: "sockets (fst (video_load s c data date t_stamp t_emit)) = sockets s"
  by (simp add: video_load_def Let_def split: option.splits)

lemma video_load_members [simp]: "members (fst (video_load s c data date t_stamp t_emit)) = members s"
  by (simp add: video_load_def Let_def split: option.splits)

lemma video_action_sockets [simp]: "sockets (fst (video_action s c data now)) = sockets s"
  by (simp add: video_action_def Let_def split: option.splits)

lemma video_action_members [simp]: "members (fst (video_action s c data now)) = members s"
  by (simp add: video_action_def Let_def split: option.splits)

lemma remove_user_sockets [simp]: "sockets (fst (remove_user s c r us n)) = sockets s"
  by (simp add: remove_user_def Let_def)

lemma remove_user_members [simp]: "members (fst (remove_user s c r us n)) = members s"
  by (simp add: remove_user_def Let_def)

lemma leave_room_sockets [simp]: "sockets (fst (leave_room s c data)) = sockets s"
  by (simp add: leave_room_def Let_def split_beta split: option.splits)

lemma leave_room_members:
  "members (fst (leave_room s c data)) r =
     (if truthy (get data ''roomId'') \<and> truthy (get data ''userId'') \<and> r = get data ''roomId''
      then members s r - {c} else members s r)"
  by (simp add: leave_room_def Let_def split_beta split: option.splits)

lemma disconnect_sockets: "sockets (fst (disconnect s c)) = (sockets s)(c := None)"
  by (simp add: disconnect_def Let_def split_beta split: option.splits)

lemma disconnect_members: "members (fst (disconnect s c)) r = members s r - {c}"
  by (simp add: disconnect_def Let_def split_beta split: option.splits)

lemma join_room_sockets:
  "sockets s c \<noteq> None \<Longrightarrow> (sockets (fst (join_room s c data date)) x = None) = (sockets s x = None)"
  by (auto simp add: join_room_def Let_def split: option.splits)

lemma join_room_members:
  "members (fst (join_room s c data date)) r =
     (if truthy (get data ''user'') \<and> truthy (get data ''roomId'') \<and> r = get data ''roomId''
      then insert c (members s r) else members s r)"
proof -
  obtain us where "roomUsers (initializeRoom (get data ''roomId'') date s) (get data ''roomId'') = Some us"
    using initializeRoom_roomUsers by blast
  then show ?thesis by (auto simp add: join_room_def Let_def)
qed

lemma reach_run: "reach (\<lambda>s e. True) s \<Longrightarrow> reach (\<lambda>s e. True) (run s es)"
proof (induction es arbitrary: s)
  case Nil
  then show ?case by (simp add: run_def)
next
  case (Cons e es)
  from Cons.prems have "reach (\<lambda>s e. True) (fst (step s e))" by (simp add: reach_step)
  then have "reach (\<lambda>s e. True) (run (fst (step s e)) es)" by (rule Cons.IH)
  then show ?case by (simp add: run_def)
qed

lemma reachable_run_init: "reachable (run init es)"
  unfolding reachable_def by (rule reach_run) (rule reach_init)

lemma reach_admitted: "reach G s \<Longrightarrow> admitted G s es \<Longrightarrow> reach G (run s es)"
proof (induction es arbitrary: s)
  case Nil
  then show ?case by (simp add: run_def)
next
  case (Cons e es)
  from Cons.prems have "reach G (fst (step s e))" by (simp add: reach_step)
  moreover from Cons.prems have "admitted G (fst (step s e)) es" by simp
  ultimately have "reach G (run (fst (step s e)) es)" by (rule Cons.IH)
  then show ?case by (simp add: run_def)
qed

section \<open>The three room maps have the same keys\<close>

lemma initializeRoom_matching: "matching s \<Longrightarrow> matching (initializeRoom r d s)"
  by (simp add: matching_def initializeRoom_dom)

lemma join_room_matching: "matching s \<Longrightarrow> matching (fst (join_room s c data date))"
proof -
  assume m: "matching s"
  have "matching (initializeRoom (get data ''roomId'') date s)"
    using m by (rule initializeRoom_matching)
  with m show ?thesis
    by (auto simp add: join_room_def Let_def matching_def split: option.splits)
qed

lemma video_load_matching:
  "matching s \<Longrightarrow> matching (fst (video_load s c data date t_stamp t_emit))"
proof -
  assume m: "matching s"
  have "matching (initializeRoom (get data ''roomId'') date s)"
    using m by (rule initializeRoom_matching)
  with m show ?thesis
    by (auto simp add: video_load_def Let_def matching_def split: option.splits)
qed

lemma video_action_matching: "matching s \<Longrightarrow> matching (fst (video_action s c data now))"
  by (auto simp add: video_action_def Let_def matching_def split: option.splits)

lemma remove_user_matching:
  "matching s \<Longrightarrow> roomUsers s r = Some us \<Longrightarrow> matching (fst (remove_user s c r us n))"
  by (auto simp add: remove_user_def Let_def matching_def)

lemma matching_members [simp]: "matching (s\<lparr>members := m\<rparr>) = matching s"
  by (simp add: matching_def)

lemma matching_sockets [simp]: "matching (s\<lparr>sockets := m\<rparr>) = matching s"
  by (simp add: matching_def)

lemma leave_room_matching: "matching s \<Longrightarrow> matching (fst (leave_room s c data))"
proof (cases "roomUsers s (get data ''roomId'')")
  case None
  assume "matching s"
  with None show ?thesis by (simp add: leave_room_def Let_def)
next
  case (Some us)
  assume m: "matching s"
  then have "matching (fst (remove_user s c (get data ''roomId'') us n))" for n
    using Some by (rule remove_user_matching)
  with Some m show ?thesis by (simp add: leave_room_def Let_def split_beta)
qed

lemma disconnect_matching: "matching s \<Longrightarrow> matching (fst (disconnect s c))"
proof -
  assume m: "matching s"
  have "matching (fst (remove_user s c r us n))" if "roomUsers s r = Some us" for r us n
    using m that by (rule remove_user_matching)
  with m show ?thesis
    by (simp add: disconnect_def Let_def split_beta split: option.splits)
qed

lemma step_matching: "matching s \<Longrightarrow> matching (fst (step s e))"
  by (cases e)
    (simp_all add: join_room_matching video_load_matching video_action_matching
      leave_room_matching disconnect_matching chat_message_def Let_def offer_def answer_def
      ice_candidate_def connect_def)

lemma reach_matching: "reach G s \<Longrightarrow> matching s"
proof (induction rule: reach.induct)
  case reach_init
  show ?case by (simp add: matching_def init_def)
next
  case (reach_step s e)
  then show ?case by (simp add: step_matching)
qed

text \<open>After an entry was removed, the presence set is gone or has an entry left.\<close>

lemma remove_user_not_empty: "roomUsers (fst (remove_user s c r us n)) r \<noteq> Some []"
  by (simp add: remove_user_def Let_def)

lemma leave_room_not_empty:
  assumes "truthy (get data ''roomId'')" and "truthy (get data ''userId'')"
  shows "roomUsers (fst (leave_room s c data)) (get data ''roomId'') \<noteq> Some []"
proof (cases "roomUsers s (get data ''roomId'')")
  case None
  with assms show ?thesis by (simp add: leave_room_def Let_def)
next
  case (Some us)
  with assms remove_user_not_empty [of s c "get data ''roomId''" us] show ?thesis
    by (simp add: leave_room_def Let_def split_beta)
qed

lemma disconnect_not_empty:
  assumes "sockets s c = Some d" and "truthy (data_roomId d)" and "truthy (data_user d)"
  shows "roomUsers (fst (disconnect s c)) (data_roomId d) \<noteq> Some []"
proof (cases "roomUsers s (data_roomId d)")
  case None
  with assms show ?thesis by (simp add: disconnect_def Let_def)
next
  case (Some us)
  with assms remove_user_not_empty [of s c "data_roomId d" us] show ?thesis
    by (simp add: disconnect_def Let_def split_beta)
qed

section \<open>No presence set is left empty\<close>

text \<open>
  Only \<open>initializeRoom\<close> stores an empty presence set: a join fills it at once, and a
  \<^verbatim>\<open>video-load\<close> leaves it empty when the room had none.
\<close>

lemma initializeRoom_roomUsers_other:
  "roomUsers (initializeRoom r d s) r' =
     (if r' = r \<and> roomUsers s r = None then Some [] else roomUsers s r')"
  by (simp add: initializeRoom_def Let_def)

lemma join_room_no_empty:
  assumes "\<And>r. roomUsers s r \<noteq> Some []"
  shows "roomUsers (fst (join_room s c data date)) r \<noteq> Some []"
proof (cases "truthy (get data ''user'') \<and> truthy (get data ''roomId'')")
  case False
  with assms show ?thesis by (auto simp add: join_room_def Let_def)
next
  case True
  obtain us where us: "roomUsers (initializeRoom (get data ''roomId'') date s) (get data ''roomId'') = Some us"
    using initializeRoom_roomUsers by blast
  have other: "r \<noteq> get data ''roomId'' \<Longrightarrow>
      roomUsers (initializeRoom (get data ''roomId'') date s) r = roomUsers s r"
    by (simp add: initializeRoom_roomUsers_other)
  from True us other assms [of r] show ?thesis
    by (auto simp add: join_room_def Let_def)
qed

lemma video_load_no_empty:
  assumes "\<And>r. roomUsers s r \<noteq> Some []"
    and "no_lonely_load s (VideoLoad c data date t_stamp t_emit)"
  shows "roomUsers (fst (video_load s c data date t_stamp t_emit)) r \<noteq> Some []"
proof (cases "truthy (get data ''roomId'') \<and> truthy (get data ''userId'') \<and> truthy (get data ''type'')")
  case False
  with assms(1) show ?thesis by (auto simp add: video_load_def Let_def)
next
  case True
  with assms(2) have "roomUsers s (get data ''roomId'') \<noteq> None" by simp
  then have "roomUsers (initializeRoom (get data ''roomId'') date s) r = roomUsers s r"
    by (simp add: initializeRoom_roomUsers_other)
  with True assms(1) [of r] show ?thesis
    by (simp add: video_load_def Let_def split: option.splits)
qed

lemma video_action_roomUsers [simp]: "roomUsers (fst (video_action s c data now)) = roomUsers s"
  by (simp add: video_action_def Let_def split: option.splits)

lemma remove_user_no_empty:
  assumes "\<And>r. roomUsers s r \<noteq> Some []"
  shows "roomUsers (fst (remove_user s c r us n)) r' \<noteq> Some []"
  using assms [of r'] by (simp add: remove_user_def Let_def)

lemma leave_room_no_empty:
  assumes "\<And>r. roomUsers s r \<noteq> Some []"
  shows "roomUsers (fst (leave_room s c data)) r \<noteq> Some []"
proof (cases "roomUsers s (get data ''roomId'')")
  case None
  with assms [of r] show ?thesis by (simp add: leave_room_def Let_def)
next
  case (Some us)
  have "roomUsers (fst (remove_user s c (get data ''roomId'') us n)) r \<noteq> Some []" for n
    using assms by (rule remove_user_no_empty)
  with Some assms [of r] show ?thesis by (simp add: leave_room_def Let_def split_beta)
qed

lemma disconnect_no_empty:
  assumes "\<And>r. roomUsers s r \<noteq> Some []"
  shows "roomUsers (fst (disconnect s c)) r \<noteq> Some []"
proof -
  have "roomUsers (fst (remove_user s c r' us n)) r \<noteq> Some []" for r' us n
    using assms by (rule remove_user_no_empty)
  with assms [of r] show ?thesis
    by (simp add: disconnect_def Let_def split_beta split: option.splits)
qed

lemma step_no_empty:
  assumes inv: "\<And>r. roomUsers s r \<noteq> Some []" and g: "no_lonely_load s e"
  shows "roomUsers (fst (step s e)) r \<noteq> Some []"
proof (cases e)
  case (JoinRoom c data date)
  with join_room_no_empty [OF inv, of c data date r] inv [of r] show ?thesis by simp
next
  case (VideoLoad c data date t1 t2)
  with video_load_no_empty [OF inv, of c data date t1 t2 r] g inv [of r] show ?thesis by simp
next
  case (LeaveRoom c data)
  with leave_room_no_empty [OF inv, of c data r] inv [of r] show ?thesis by simp
next
  case (Disconnect c)
  with disconnect_no_empty [OF inv, of c r] inv [of r] show ?thesis by simp
qed (use inv [of r] in \<open>simp_all add: chat_message_def Let_def offer_def answer_def
    ice_candidate_def connect_def\<close>)

lemma reach_no_empty: "reach no_lonely_load s \<Longrightarrow> roomUsers s r \<noteq> Some []"
proof (induction arbitrary: r rule: reach.induct)
  case reach_init
  show ?case by (simp add: init_def)
next
  case (reach_step s e)
  show ?case using reach_step.IH reach_step.hyps(2) by (rule step_no_empty)
qed

section \<open>Presence sets\<close>

lemma present_initializeRoom [simp]: "present (initializeRoom r d s) r' = present s r'"
  by (auto simp add: present_def initializeRoom_def Let_def split: option.splits)

lemma present_members [simp]: "present (s\<lparr>members := m\<rparr>) = present s"
  by (simp add: present_def fun_eq_iff)

lemma present_sockets [simp]: "present (s\<lparr>sockets := m\<rparr>) = present s"
  by (simp add: present_def fun_eq_iff)

lemma present_roomVideoStates [simp]: "present (s\<lparr>roomVideoStates := m\<rparr>) = present s"
  by (simp add: present_def fun_eq_iff)

text \<open>A join adds the joining socket to the room it names and changes no other presence set.\<close>

lemma present_join_room:
  "present (fst (join_room s c data date)) r
     = (if truthy (get data ''user'') \<and> truthy (get data ''roomId'') \<and> r = get data ''roomId''
        then insert c (present s r) else present s r)"
proof (cases "truthy (get data ''user'') \<and> truthy (get data ''roomId'')")
  case False
  then show ?thesis by (auto simp add: join_room_def Let_def)
next
  case True
  let ?s1 = "initializeRoom (get data ''roomId'') date s"
  obtain us where us: "roomUsers ?s1 (get data ''roomId'') = Some us"
    using initializeRoom_roomUsers by blast
  then have "present ?s1 (get data ''roomId'') = fst ` set us" by (simp add: present_def)
  then have old: "present s (get data ''roomId'') = fst ` set us" by simp
  have other: "present ?s1 r = present s r" by simp
  show ?thesis using True us old other
    by (auto simp add: join_room_def Let_def present_def dom_update)
qed

lemma present_remove_user:
  "roomUsers s r = Some us \<Longrightarrow> present (fst (remove_user s c r us n)) r' \<subseteq> present s r'"
  using dom_delete_subset [of c us] by (auto simp add: remove_user_def Let_def present_def)

lemma present_remove_user_self:
  "roomUsers s r = Some us \<Longrightarrow> c \<notin> present (fst (remove_user s c r us n)) r"
  using delete_notin_dom [of c us] by (simp add: remove_user_def Let_def present_def)

lemma present_leave_room: "present (fst (leave_room s c data)) r \<subseteq> present s r"
proof (cases "roomUsers s (get data ''roomId'')")
  case None
  then show ?thesis by (simp add: leave_room_def Let_def)
next
  case (Some us)
  then have "present (fst (remove_user s c (get data ''roomId'') us n)) r \<subseteq> present s r" for n
    by (rule present_remove_user)
  with Some show ?thesis by (simp add: leave_room_def Let_def split_beta)
qed

lemma present_leave_room_self:
  assumes "truthy (get data ''roomId'')" and "truthy (get data ''userId'')"
  shows "c \<notin> present (fst (leave_room s c data)) (get data ''roomId'')"
proof (cases "roomUsers s (get data ''roomId'')")
  case None
  with assms show ?thesis by (simp add: leave_room_def Let_def present_def)
next
  case (Some us)
  then have "c \<notin> present (fst (remove_user s c (get data ''roomId'') us n)) (get data ''roomId'')" for n
    by (rule present_remove_user_self)
  with Some assms show ?thesis by (simp add: leave_room_def Let_def split_beta)
qed

lemma present_disconnect: "present (fst (disconnect s c)) r \<subseteq> present s r"
proof -
  have "present (fst (remove_user s c r' us n)) r \<subseteq> present s r"
    if "roomUsers s r' = Some us" for r' us n
    using that by (rule present_remove_user)
  then show ?thesis
    by (simp add: disconnect_def Let_def split_beta split: option.splits)
qed

lemma present_video_load:
  "present (fst (video_load s c data date t_stamp t_emit)) r = present s r"
  by (simp add: video_load_def Let_def split: option.splits)

lemma present_video_action: "present (fst (video_action s c data now)) r = present s r"
  by (simp add: video_action_def Let_def split: option.splits)

lemma present_step:
  "present (fst (step s e)) r \<subseteq>
     (case e of JoinRoom c data date \<Rightarrow>
        (if r = get data ''roomId'' then insert c (present s r) else present s r)
      | _ \<Rightarrow> present s r)"
proof (cases e)
  case (JoinRoom c data date)
  then show ?thesis by (auto simp add: present_join_room)
next
  case (LeaveRoom c data)
  then show ?thesis using present_leave_room [of s c data r] by simp
next
  case (Disconnect c)
  then show ?thesis using present_disconnect [of s c r] by simp
qed (simp_all add: present_video_load present_video_action chat_message_def Let_def
    offer_def answer_def ice_candidate_def connect_def)

text \<open>
  A connected socket that is in a room's presence set is joined to that room, as long as
  a new connection gets an id that is in no presence set.
\<close>

lemma step_present_joined:
  assumes inv: "\<And>x r. x \<in> present s r \<Longrightarrow> sockets s x \<noteq> None \<Longrightarrow> x \<in> members s r"
    and g: "fresh_connect s e"
    and p: "x \<in> present (fst (step s e)) r" and c: "sockets (fst (step s e)) x \<noteq> None"
  shows "x \<in> members (fst (step s e)) r"
proof (cases e)
  case (Connect k)
  with g have "k \<notin> present s r" by simp
  with p c Connect inv [of x r] show ?thesis
    by (auto simp add: connect_def split: if_splits)
next
  case (JoinRoom k data date)
  show ?thesis
  proof (cases "sockets s k = None")
    case True
    with p c JoinRoom inv show ?thesis by simp
  next
    case False
    from c JoinRoom False have cx: "sockets s x \<noteq> None" by (simp add: join_room_sockets)
    from p JoinRoom False have "x \<in> present s r \<or>
        (truthy (get data ''user'') \<and> truthy (get data ''roomId'') \<and> r = get data ''roomId'' \<and> x = k)"
      by (auto simp add: present_join_room split: if_splits)
    with cx inv [of x r] JoinRoom False show ?thesis
      by (auto simp add: join_room_members)
  qed
next
  case (VideoLoad k data date t1 t2)
  with p c inv [of x r] show ?thesis by (auto simp add: present_video_load split: if_splits)
next
  case (VideoAction k data now)
  with p c inv [of x r] show ?thesis by (auto simp add: present_video_action split: if_splits)
next
  case (ChatMessage k data now)
  with p c inv [of x r] show ?thesis by (auto simp add: chat_message_def Let_def split: if_splits)
next
  case (Offer k data)
  with p c inv [of x r] show ?thesis by (auto simp add: offer_def split: if_splits)
next
  case (Answer k data)
  with p c inv [of x r] show ?thesis by (auto simp add: answer_def split: if_splits)
next
  case (IceCandidate k data)
  with p c inv [of x r] show ?thesis by (auto simp add: ice_candidate_def split: if_splits)
next
  case (LeaveRoom k data)
  show ?thesis
  proof (cases "sockets s k = None")
    case True
    with p c LeaveRoom inv show ?thesis by simp
  next
    case False
    from p LeaveRoom False present_leave_room [of s k data r] have px: "x \<in> present s r" by auto
    from c LeaveRoom False have cx: "sockets s x \<noteq> None" by simp
    from px cx have m: "x \<in> members s r" by (rule inv)
    show ?thesis
    proof (cases "truthy (get data ''roomId'') \<and> truthy (get data ''userId'') \<and> r = get data ''roomId''")
      case True
      with present_leave_room_self [of data k s] p LeaveRoom False have "x \<noteq> k" by auto
      with m LeaveRoom False show ?thesis by (auto simp add: leave_room_members)
    next
      case no: False
      with m LeaveRoom False show ?thesis by (auto simp add: leave_room_members)
    qed
  qed
next
  case (Disconnect k)
  show ?thesis
  proof (cases "sockets s k = None")
    case True
    with p c Disconnect inv show ?thesis by simp
  next
    case False
    from p Disconnect False present_disconnect [of s k r] have px: "x \<in> present s r" by auto
    from c Disconnect False have "x \<noteq> k \<and> sockets s x \<noteq> None"
      by (auto simp add: disconnect_sockets split: if_splits)
    with px inv [of x r] Disconnect False show ?thesis by (simp add: disconnect_members)
  qed
qed

lemma reach_present_joined:
  "reach fresh_connect s \<Longrightarrow> x \<in> present s r \<Longrightarrow> sockets s x \<noteq> None \<Longrightarrow> x \<in> members s r"
proof (induction arbitrary: x r rule: reach.induct)
  case reach_init
  then show ?case by (simp add: present_def init_def)
next
  case (reach_step s e)
  show ?case
    using reach_step.IH reach_step.hyps(2) reach_step.prems by (rule step_present_joined)
qed

section \<open>Sample sessions evaluated\<close>

lemma two_joined_vs: "roomVideoStates two_joined (Str ''r1'') = Some fresh_video_state"
  by (simp add: two_joined_def run_def init_def handler_defs sample_defs Let_def get_def)

lemma two_joined_members: "members two_joined (Str ''r1'') = {''a'', ''b''}"
  by (auto simp add: two_joined_def run_def init_def handler_defs sample_defs Let_def get_def)

lemma two_joined_sockets: "sockets two_joined ''a'' \<noteq> None"
  by (simp add: two_joined_def run_def init_def handler_defs sample_defs Let_def get_def)

lemma two_joined_socket_a:
  "sockets two_joined ''a'' = Some \<lparr>data_roomId = Str ''r1'',
     data_user = Obj [(''name'', Str ''alice''), (''socketId'', Str ''a'')]\<rparr>"
  by (simp add: two_joined_def run_def init_def handler_defs sample_defs Let_def get_def)

lemma two_joined_present: "present two_joined r = (if r = Str ''r1'' then {''a'', ''b''} else {})"
  by (auto simp add: two_joined_def present_def run_def init_def handler_defs sample_defs Let_def
      get_def)

lemma seeked_eq:
  "seeked = two_joined\<lparr>roomVideoStates := (roomVideoStates two_joined)(Str ''r1'' \<mapsto> seeked_state)\<rparr>"
  by (simp add: seeked_def run_def two_joined_sockets video_action_def Let_def get_def
      action_data_def two_joined_vs debounced_def apply_action_def fresh_video_state_def
      seeked_state_def)

lemma seeked_vs: "roomVideoStates seeked (Str ''r1'') = Some seeked_state"
  by (simp add: seeked_eq)

lemma seeked_members: "members seeked (Str ''r1'') = {''a'', ''b''}"
  by (simp add: seeked_eq two_joined_members)

lemma loaded_alone_vs:
  "roomVideoStates loaded_alone (Str ''r1'') =
     Some \<lparr>vtype = Str ''youtube'', videoId = Str ''abc'', videoUrl = Undefined,
            currentTime = Num 0, isPlaying = False, lastUpdated = Some 5000,
            lastUpdatedBy = Str ''u1''\<rparr>"
  by (simp add: loaded_alone_def run_def init_def handler_defs sample_defs Let_def get_def
      fresh_video_state_def)

lemma loaded_then_left_maps:
  "roomUsers loaded_then_left = Map.empty" "rooms loaded_then_left = Map.empty"
  "roomVideoStates loaded_then_left = Map.empty"
  by (simp_all add: loaded_then_left_def loaded_alone_def run_def init_def handler_defs sample_defs
      Let_def get_def fresh_video_state_def fun_eq_iff)

lemma loaded_then_left_reach: "reach no_lonely_load loaded_then_left"
proof -
  have "admitted no_lonely_load init [Connect ''a'', JoinRoom ''a'' (join_data alice ''r1'') 100,
      VideoLoad ''a'' load_data 4999 5000 5001]"
    by (simp add: init_def handler_defs sample_defs Let_def get_def)
  with reach_init have "reach no_lonely_load loaded_alone"
    unfolding loaded_alone_def by (rule reach_admitted)
  then show ?thesis unfolding loaded_then_left_def by (rule reach_admitted) simp
qed

section \<open>Room lifecycle (C1)\<close>

text \<open>
  Claim C1, as stated, fails: a \<^verbatim>\<open>video-load\<close> calls \<open>initializeRoom\<close>, so one that names
  a room nobody has joined leaves a Room and a VideoState with a presence set of zero entries.
\<close>

theorem room_without_members_counterexample:
  "reachable lonely_load
   \<and> roomUsers lonely_load (Str ''r1'') = Some []
   \<and> rooms lonely_load (Str ''r1'') = Some \<lparr>room_id = Str ''r1'', createdAt = 1, users = []\<rparr>
   \<and> roomVideoStates lonely_load (Str ''r1'')
       = Some \<lparr>vtype = Str ''youtube'', videoId = Str ''abc'', videoUrl = Undefined,
               currentTime = Num 0, isPlaying = False, lastUpdated = Some 2,
               lastUpdatedBy = Str ''u1''\<rparr>"
proof -
  have "reachable lonely_load" unfolding lonely_load_def by (rule reachable_run_init)
  then show ?thesis
    by (simp add: lonely_load_def run_def init_def handler_defs sample_defs Let_def get_def
        fresh_video_state_def)
qed

text \<open>
  Claim C1, amended. At every reachable state a room id has its Room, its VideoState and
  its presence set, or none of the three. At every state reached by events among which no
  \<^verbatim>\<open>video-load\<close> that passes validation names a room without a presence set, a room
  whose presence set has zero entries has no Room and no VideoState.
\<close>

theorem room_structures_exist_together:
  "(reachable s \<longrightarrow>
      (rooms s r = None \<longleftrightarrow> roomVideoStates s r = None)
      \<and> (roomVideoStates s r = None \<longleftrightarrow> roomUsers s r = None))
   \<and> (reach no_lonely_load s \<and> present s r = {} \<longrightarrow>
      rooms s r = None \<and> roomVideoStates s r = None \<and> roomUsers s r = None)"
proof (intro conjI impI)
  assume "reachable s"
  then have "matching s" unfolding reachable_def by (rule reach_matching)
  then have "r \<in> dom (rooms s) \<longleftrightarrow> r \<in> dom (roomVideoStates s)"
    and "r \<in> dom (roomVideoStates s) \<longleftrightarrow> r \<in> dom (roomUsers s)"
    by (simp_all add: matching_def)
  then show "(rooms s r = None \<longleftrightarrow> roomVideoStates s r = None)"
    and "(roomVideoStates s r = None \<longleftrightarrow> roomUsers s r = None)"
    by (auto simp add: domIff)
next
  assume a: "reach no_lonely_load s \<and> present s r = {}"
  then have ne: "roomUsers s r \<noteq> Some []" using reach_no_empty by blast
  from a have "roomUsers s r = None \<or> roomUsers s r = Some []"
    by (cases "roomUsers s r") (auto simp add: present_def)
  with ne have u: "roomUsers s r = None" by blast
  from a have "matching s" using reach_matching by blast
  then have "r \<in> dom (rooms s) \<longleftrightarrow> r \<in> dom (roomVideoStates s)"
    and "r \<in> dom (roomVideoStates s) \<longleftrightarrow> r \<in> dom (roomUsers s)"
    by (simp_all add: matching_def)
  with u show "rooms s r = None" and "roomVideoStates s r = None" and "roomUsers s r = None"
    by (auto simp add: domIff)
qed

theorem room_structures_exist_together_witness:
  "reachable two_joined
   \<and> roomUsers two_joined (Str ''r1'') \<noteq> None
   \<and> roomVideoStates two_joined (Str ''r1'') \<noteq> None
   \<and> rooms two_joined (Str ''r1'') \<noteq> None
   \<and> (reach no_lonely_load loaded_then_left \<and> present loaded_then_left (Str ''r1'') = {})
   \<and> roomVideoStates loaded_alone (Str ''r1'') \<noteq> None
   \<and> rooms loaded_then_left (Str ''r1'') = None
   \<and> roomVideoStates loaded_then_left (Str ''r1'') = None
   \<and> roomUsers loaded_then_left (Str ''r1'') = None"
proof -
  have h0: "reachable two_joined" unfolding two_joined_def by (rule reachable_run_init)
  have h3: "roomVideoStates two_joined (Str ''r1'') \<noteq> None" by (simp add: two_joined_vs)
  note t = room_structures_exist_together [where s = two_joined and r = "Str ''r1''",
      THEN conjunct1, THEN mp, OF h0]
  have e1: "rooms two_joined (Str ''r1'') \<noteq> None" using t [THEN conjunct1] h3 by simp
  have e2: "roomUsers two_joined (Str ''r1'') \<noteq> None" using t [THEN conjunct2] h3 by simp
  have h4: "reach no_lonely_load loaded_then_left \<and> present loaded_then_left (Str ''r1'') = {}"
    by (simp add: loaded_then_left_reach present_def loaded_then_left_maps)
  have h5: "roomVideoStates loaded_alone (Str ''r1'') \<noteq> None" by (simp add: loaded_alone_vs)
  note u = room_structures_exist_together [where s = loaded_then_left and r = "Str ''r1''",
      THEN conjunct2, THEN mp, OF h4]
  show ?thesis
    by (rule conjI [OF h0 conjI [OF e2 conjI [OF h3 conjI [OF e1 conjI [OF h4 conjI [OF h5 u]]]]]])
qed

section \<open>Debounce of playback actions (C2)\<close>

text \<open>
  Claim C2, as stated, fails: the window is measured from the last accepted mutation, not
  between the two events. In a room whose VideoState was stamped at 1000, an action at 1250
  is dropped and one at 1400, 150ms later, is applied and broadcast.
\<close>

theorem second_of_two_close_actions_applied_counterexample:
  "roomVideoStates seeked (Str ''r1'') = Some seeked_state
   \<and> video_action seeked ''a'' (action_data ''pause'' (Num 60)) 1250 = (seeked, [])
   \<and> (1400::int) - 1250 < 300
   \<and> video_action (fst (video_action seeked ''a'' (action_data ''pause'' (Num 60)) 1250)) ''b''
         (action_data ''play'' (Num 70)) 1400 =
       (seeked\<lparr>roomVideoStates := (roomVideoStates seeked)(Str ''r1'' \<mapsto>
            \<lparr>vtype = Null, videoId = Null, videoUrl = Null, currentTime = Num 70,
             isPlaying = True, lastUpdated = Some 1400, lastUpdatedBy = Str ''u1''\<rparr>)\<rparr>,
        [(ToRoomExceptSender (Str ''r1''), ''video-action'',
          [(''roomId'', Str ''r1''), (''action'', Str ''play''), (''time'', Num 70),
           (''userId'', Str ''u1''), (''timestamp'', Num 1400)])])"
  by (simp add: seeked_vs video_action_def Let_def get_def action_data_def debounced_def
      apply_action_def js_or_def seeked_state_def)

text \<open>
  Claim C2, amended. Of two consecutive \<^verbatim>\<open>video-action\<close> events for one room, both
  passing validation, the first finding the VideoState, outside the debounce window and
  handled at a nonzero clock reading \<open>t1\<close>, and the second handled at \<open>t2\<close> with
  \<open>t2 - t1 < 300\<close>: the first mutates the VideoState and is sent to the room except its
  sender; the second changes nothing and emits nothing, neither a broadcast nor an error.
\<close>

theorem second_action_within_window_dropped:
  assumes "truthy (get d1 ''roomId'')" and "truthy (get d1 ''userId'')"
    and "get d2 ''roomId'' = get d1 ''roomId''" and "truthy (get d2 ''userId'')"
    and "roomVideoStates s (get d1 ''roomId'') = Some v"
    and "\<not> debounced v t1" and "t1 \<noteq> 0" and "t2 - t1 < 300"
  shows "video_action s c1 d1 t1 =
           (s\<lparr>roomVideoStates := (roomVideoStates s)(get d1 ''roomId'' \<mapsto>
                (apply_action (get d1 ''action'') (get d1 ''time'') v)
                  \<lparr>lastUpdated := Some t1, lastUpdatedBy := get d1 ''userId''\<rparr>)\<rparr>,
            [(ToRoomExceptSender (get d1 ''roomId''), ''video-action'',
              AList.update ''timestamp'' (Num (of_int t1)) d1)])
     \<and> video_action (fst (video_action s c1 d1 t1)) c2 d2 t2 = (fst (video_action s c1 d1 t1), [])"
proof -
  let ?v1 = "(apply_action (get d1 ''action'') (get d1 ''time'') v)
               \<lparr>lastUpdated := Some t1, lastUpdatedBy := get d1 ''userId''\<rparr>"
  let ?s1 = "s\<lparr>roomVideoStates := (roomVideoStates s)(get d1 ''roomId'' \<mapsto> ?v1)\<rparr>"
  have first: "video_action s c1 d1 t1 =
      (?s1, [(ToRoomExceptSender (get d1 ''roomId''), ''video-action'',
              AList.update ''timestamp'' (Num (of_int t1)) d1)])"
    using assms(1,2,5,6) by (rule video_action_accepted)
  have "debounced ?v1 t2" using assms(7,8) by (simp add: debounced_def)
  moreover have "roomVideoStates ?s1 (get d2 ''roomId'') = Some ?v1" using assms(3) by simp
  moreover have "truthy (get d2 ''roomId'')" using assms(1,3) by simp
  ultimately have "video_action ?s1 c2 d2 t2 = (?s1, [])"
    using assms(4) by (simp add: video_action_debounced)
  with first show ?thesis by simp
qed

theorem second_action_within_window_dropped_witness:
  "truthy (get (action_data ''pause'' (Num 60)) ''roomId'')
   \<and> truthy (get (action_data ''pause'' (Num 60)) ''userId'')
   \<and> get (action_data ''play'' (Num 70)) ''roomId'' = get (action_data ''pause'' (Num 60)) ''roomId''
   \<and> truthy (get (action_data ''play'' (Num 70)) ''userId'')
   \<and> roomVideoStates seeked (get (action_data ''pause'' (Num 60)) ''roomId'') = Some seeked_state
   \<and> \<not> debounced seeked_state 1300 \<and> (1300::int) \<noteq> 0 \<and> (1400::int) - 1300 < 300
   \<and> snd (video_action seeked ''a'' (action_data ''pause'' (Num 60)) 1300) =
        [(ToRoomExceptSender (Str ''r1''), ''video-action'',
          [(''roomId'', Str ''r1''), (''action'', Str ''pause''), (''time'', Num 60),
           (''userId'', Str ''u1''), (''timestamp'', Num 1300)])]
   \<and> roomVideoStates (fst (video_action seeked ''a'' (action_data ''pause'' (Num 60)) 1300)) (Str ''r1'')
        = Some \<lparr>vtype = Null, videoId = Null, videoUrl = Null, currentTime = Num 60,
             isPlaying = False, lastUpdated = Some 1300, lastUpdatedBy = Str ''u1''\<rparr>
   \<and> video_action (fst (video_action seeked ''a'' (action_data ''pause'' (Num 60)) 1300)) ''b''
         (action_data ''play'' (Num 70)) 1400
        = (fst (video_action seeked ''a'' (action_data ''pause'' (Num 60)) 1300), [])"
proof -
  have h1: "truthy (get (action_data ''pause'' (Num 60)) ''roomId'')"
    and h2: "truthy (get (action_data ''pause'' (Num 60)) ''userId'')"
    and h3: "get (action_data ''play'' (Num 70)) ''roomId'' = get (action_data ''pause'' (Num 60)) ''roomId''"
    and h4: "truthy (get (action_data ''play'' (Num 70)) ''userId'')"
    by (simp_all add: action_data_def get_def)
  have h5: "roomVideoStates seeked (get (action_data ''pause'' (Num 60)) ''roomId'') = Some seeked_state"
    by (simp add: action_data_def get_def seeked_vs)
  have h6: "\<not> debounced seeked_state 1300"
    by (simp add: debounced_def seeked_state_def)
  have h7: "(1300::int) \<noteq> 0" and h8: "(1400::int) - 1300 < 300" by simp_all
  note both = second_action_within_window_dropped [OF h1 h2 h3 h4 h5 h6 h7 h8, of "''a''" "''b''"]
  have out: "snd (video_action seeked ''a'' (action_data ''pause'' (Num 60)) 1300) =
        [(ToRoomExceptSender (Str ''r1''), ''video-action'',
          [(''roomId'', Str ''r1''), (''action'', Str ''pause''), (''time'', Num 60),
           (''userId'', Str ''u1''), (''timestamp'', Num 1300)])]"
    using both [THEN conjunct1] by (simp add: action_data_def get_def)
  have st: "roomVideoStates (fst (video_action seeked ''a'' (action_data ''pause'' (Num 60)) 1300)) (Str ''r1'')
        = Some \<lparr>vtype = Null, videoId = Null, videoUrl = Null, currentTime = Num 60,
             isPlaying = False, lastUpdated = Some 1300, lastUpdatedBy = Str ''u1''\<rparr>"
    using both [THEN conjunct1]
    by (simp add: action_data_def get_def apply_action_def js_or_def seeked_state_def)
  from h1 h2 h3 h4 h5 h6 h7 h8 out st both [THEN conjunct2] show ?thesis by blast
qed

section \<open>Play and pause (C3)\<close>

text \<open>
  Claim C3 fails on the code at time 0. With the room at position 50, a \<^verbatim>\<open>play\<close> that
  carries \<^verbatim>\<open>time: 0\<close> is accepted and forwarded with time 0, but
  \<^verbatim>\<open>time || currentState.currentTime\<close> takes 0 for absent and the stored position stays 50.
\<close>

theorem play_with_time_zero_keeps_old_position:
  "roomVideoStates seeked (Str ''r1'') = Some seeked_state
   \<and> currentTime seeked_state = Num 50
   \<and> get (action_data ''play'' (Num 0)) ''time'' = Num 0
   \<and> video_action seeked ''b'' (action_data ''play'' (Num 0)) 2000 =
       (seeked\<lparr>roomVideoStates := (roomVideoStates seeked)(Str ''r1'' \<mapsto>
            \<lparr>vtype = Null, videoId = Null, videoUrl = Null, currentTime = Num 50,
             isPlaying = True, lastUpdated = Some 2000, lastUpdatedBy = Str ''u1''\<rparr>)\<rparr>,
        [(ToRoomExceptSender (Str ''r1''), ''video-action'',
          [(''roomId'', Str ''r1''), (''action'', Str ''play''), (''time'', Num 0),
           (''userId'', Str ''u1''), (''timestamp'', Num 2000)])])"
  by (simp add: seeked_vs video_action_def Let_def get_def action_data_def debounced_def
      apply_action_def js_or_def seeked_state_def)

theorem play_with_time_zero_keeps_old_position_witness:
  "get (action_data ''play'' (Num 0)) ''time'' = Num 0
   \<and> roomVideoStates seeked (Str ''r1'') = Some seeked_state
   \<and> currentTime seeked_state = Num 50
   \<and> roomVideoStates (fst (video_action seeked ''b'' (action_data ''play'' (Num 0)) 2000)) (Str ''r1'')
         = Some \<lparr>vtype = Null, videoId = Null, videoUrl = Null, currentTime = Num 50,
             isPlaying = True, lastUpdated = Some 2000, lastUpdatedBy = Str ''u1''\<rparr>"
  using play_with_time_zero_keeps_old_position by simp

section \<open>Fields of forwarded payloads (C4)\<close>

text \<open>
  Claim C4, as stated, fails: a relayed \<^verbatim>\<open>offer\<close> is forwarded to the other socket of the
  room with the fields \<^verbatim>\<open>offer\<close> and \<^verbatim>\<open>from\<close> only; it carries no timestamp, not even
  the one the client sent.
\<close>

theorem relayed_offer_has_no_timestamp_counterexample:
  "inbox (offer seeked ''a'' offer_data) ''a'' ''b''
     = [(''offer'', [(''offer'', Str ''sdp''), (''from'', Str ''a'')])]
   \<and> map_of [(''offer'', Str ''sdp''), (''from'', Str ''a'')] ''timestamp'' = None
   \<and> map_of offer_data ''timestamp'' = Some (Num 5)"
  by (simp add: inbox_def offer_def offer_data_def get_def seeked_members)

text \<open>
  Claim C4, amended. The forwarded payload of a \<^verbatim>\<open>video-load\<close>, of a \<^verbatim>\<open>video-action\<close>
  and of a \<^verbatim>\<open>chat-message\<close> carries a \<open>timestamp\<close> field holding the server's clock
  reading, whatever timestamp the client's payload holds. The forwarded payload of an
  \<^verbatim>\<open>offer\<close>, \<^verbatim>\<open>answer\<close> or \<^verbatim>\<open>ice-candidate\<close> carries the sender's connection id in
  \<open>from\<close> and no \<open>timestamp\<close>.
\<close>

theorem forwarded_payload_fields:
  "(truthy (get dl ''roomId'') \<and> truthy (get dl ''userId'') \<and> truthy (get dl ''type'') \<longrightarrow>
      (\<exists>p. snd (video_load s c dl date t_stamp t_emit) = [(ToRoom (get dl ''roomId''), ''video-load'', p)]
          \<and> map_of p ''timestamp'' = Some (Num (of_int t_emit))))
   \<and> (truthy (get dc ''roomId'') \<and> truthy (get dc ''user'') \<and> truthy (get dc ''message'') \<longrightarrow>
      (\<exists>p. snd (chat_message s c dc now) = [(ToRoom (get dc ''roomId''), ''chat-message'', p)]
          \<and> map_of p ''timestamp'' = Some (Num (of_int now))))
   \<and> (truthy (get da ''roomId'') \<and> truthy (get da ''userId'')
        \<and> roomVideoStates s (get da ''roomId'') = Some v \<and> \<not> debounced v now \<longrightarrow>
      (\<exists>p. snd (video_action s c da now)
             = [(ToRoomExceptSender (get da ''roomId''), ''video-action'', p)]
          \<and> map_of p ''timestamp'' = Some (Num (of_int now))))
   \<and> (\<exists>p. snd (offer s c ds) = [(ToRoomExceptSender (get ds ''roomId''), ''offer'', p)]
          \<and> map_of p ''from'' = Some (Str c) \<and> map_of p ''timestamp'' = None)
   \<and> (\<exists>p. snd (answer s c ds) = [(ToRoomExceptSender (get ds ''roomId''), ''answer'', p)]
          \<and> map_of p ''from'' = Some (Str c) \<and> map_of p ''timestamp'' = None)
   \<and> (\<exists>p. snd (ice_candidate s c ds)
             = [(ToRoomExceptSender (get ds ''roomId''), ''ice-candidate'', p)]
          \<and> map_of p ''from'' = Some (Str c) \<and> map_of p ''timestamp'' = None)"
proof (intro conjI impI)
  assume "truthy (get dl ''roomId'') \<and> truthy (get dl ''userId'') \<and> truthy (get dl ''type'')"
  then obtain v0 where "video_load s c dl date t_stamp t_emit =
        ((initializeRoom (get dl ''roomId'') date s)
           \<lparr>roomVideoStates := (roomVideoStates (initializeRoom (get dl ''roomId'') date s))
              (get dl ''roomId'' \<mapsto>
                 v0\<lparr>vtype := get dl ''type'', videoId := get dl ''videoId'',
                   videoUrl := get dl ''videoUrl'', currentTime := Num 0, isPlaying := False,
                   lastUpdated := Some t_stamp, lastUpdatedBy := get dl ''userId''\<rparr>)\<rparr>,
         [(ToRoom (get dl ''roomId''), ''video-load'',
            [(''type'', get dl ''type''), (''videoId'', get dl ''videoId''),
             (''videoUrl'', get dl ''videoUrl''), (''userId'', get dl ''userId''),
             (''timestamp'', Num (of_int t_emit))])])"
    using video_load_valid [of dl date s c t_stamp t_emit] by blast
  then show "\<exists>p. snd (video_load s c dl date t_stamp t_emit)
        = [(ToRoom (get dl ''roomId''), ''video-load'', p)]
      \<and> map_of p ''timestamp'' = Some (Num (of_int t_emit))"
    by simp
next
  assume "truthy (get dc ''roomId'') \<and> truthy (get dc ''user'') \<and> truthy (get dc ''message'')"
  then show "\<exists>p. snd (chat_message s c dc now) = [(ToRoom (get dc ''roomId''), ''chat-message'', p)]
          \<and> map_of p ''timestamp'' = Some (Num (of_int now))"
    by (simp add: chat_message_def Let_def)
next
  assume "truthy (get da ''roomId'') \<and> truthy (get da ''userId'')
        \<and> roomVideoStates s (get da ''roomId'') = Some v \<and> \<not> debounced v now"
  then show "\<exists>p. snd (video_action s c da now)
             = [(ToRoomExceptSender (get da ''roomId''), ''video-action'', p)]
          \<and> map_of p ''timestamp'' = Some (Num (of_int now))"
    by (simp add: video_action_accepted update_conv')
next
  show "\<exists>p. snd (offer s c ds) = [(ToRoomExceptSender (get ds ''roomId''), ''offer'', p)]
          \<and> map_of p ''from'' = Some (Str c) \<and> map_of p ''timestamp'' = None"
    by (simp add: offer_def)
next
  show "\<exists>p. snd (answer s c ds) = [(ToRoomExceptSender (get ds ''roomId''), ''answer'', p)]
          \<and> map_of p ''from'' = Some (Str c) \<and> map_of p ''timestamp'' = None"
    by (simp add: answer_def)
next
  show "\<exists>p. snd (ice_candidate s c ds)
             = [(ToRoomExceptSender (get ds ''roomId''), ''ice-candidate'', p)]
          \<and> map_of p ''from'' = Some (Str c) \<and> map_of p ''timestamp'' = None"
    by (simp add: ice_candidate_def)
qed

theorem forwarded_payload_fields_witness:
  "(truthy (get load_data ''roomId'') \<and> truthy (get load_data ''userId'')
      \<and> truthy (get load_data ''type''))
   \<and> (truthy (get chat_data ''roomId'') \<and> truthy (get chat_data ''user'')
      \<and> truthy (get chat_data ''message''))
   \<and> (truthy (get stale_action ''roomId'') \<and> truthy (get stale_action ''userId'')
      \<and> roomVideoStates seeked (get stale_action ''roomId'') = Some seeked_state
      \<and> \<not> debounced seeked_state 2000)
   \<and> map_of stale_action ''timestamp'' = Some (Num 5)
   \<and> (\<exists>p. snd (video_load seeked ''a'' load_data 1 2 3)
            = [(ToRoom (get load_data ''roomId''), ''video-load'', p)]
          \<and> map_of p ''timestamp'' = Some (Num (of_int 3)))
   \<and> (\<exists>p. snd (chat_message seeked ''a'' chat_data 2000)
            = [(ToRoom (get chat_data ''roomId''), ''chat-message'', p)]
          \<and> map_of p ''timestamp'' = Some (Num (of_int 2000)))
   \<and> (\<exists>p. snd (video_action seeked ''a'' stale_action 2000)
             = [(ToRoomExceptSender (get stale_action ''roomId''), ''video-action'', p)]
          \<and> map_of p ''timestamp'' = Some (Num (of_int 2000)))
   \<and> (\<exists>p. snd (offer seeked ''a'' offer_data)
             = [(ToRoomExceptSender (get offer_data ''roomId''), ''offer'', p)]
          \<and> map_of p ''from'' = Some (Str ''a'') \<and> map_of p ''timestamp'' = None)"
proof -
  have hl: "truthy (get load_data ''roomId'') \<and> truthy (get load_data ''userId'')
      \<and> truthy (get load_data ''type'')"
    by (simp add: load_data_def get_def)
  have hc: "truthy (get chat_data ''roomId'') \<and> truthy (get chat_data ''user'')
      \<and> truthy (get chat_data ''message'')"
    by (simp add: chat_data_def alice_def get_def)
  have ha: "truthy (get stale_action ''roomId'') \<and> truthy (get stale_action ''userId'')
      \<and> roomVideoStates seeked (get stale_action ''roomId'') = Some seeked_state
      \<and> \<not> debounced seeked_state 2000"
    by (simp add: stale_action_def get_def seeked_vs debounced_def seeked_state_def)
  have ts: "map_of stale_action ''timestamp'' = Some (Num 5)"
    by (simp add: stale_action_def)
  note t = forwarded_payload_fields [where s = seeked and c = "''a''"
      and dl = load_data and dc = chat_data and da = stale_action
      and ds = offer_data and v = seeked_state and now = 2000 and date = 1 and t_stamp = 2
      and t_emit = 3]
  from hl hc ha ts t [THEN conjunct1, THEN mp, OF hl]
    t [THEN conjunct2, THEN conjunct1, THEN mp, OF hc]
    t [THEN conjunct2, THEN conjunct2, THEN conjunct1, THEN mp, OF ha]
    t [THEN conjunct2, THEN conjunct2, THEN conjunct2, THEN conjunct1]
  show ?thesis by blast
qed

section \<open>One room per connection (C5)\<close>

text \<open>
  Claim C5 fails on the code. \<^verbatim>\<open>join-room\<close> records the one room of the socket in
  \<^verbatim>\<open>socket.data.roomId\<close> and does not take the socket out of the room it joined before:
  a socket that joins r1 and then r2 is in both presence sets. \<^verbatim>\<open>disconnect\<close> cleans
  the recorded room only, so the closed socket stays in the presence set of r1, and r1 is
  kept.
\<close>

theorem second_join_keeps_first_room_presence:
  "reachable closed_after_two_joins
   \<and> ''a'' \<in> present joined_twice (Str ''r1'')
   \<and> ''a'' \<in> present joined_twice (Str ''r2'')
   \<and> Str ''r1'' \<noteq> Str ''r2''
   \<and> sockets joined_twice ''a'' = Some \<lparr>data_roomId = Str ''r2'',
        data_user = Obj [(''name'', Str ''alice''), (''socketId'', Str ''a'')]\<rparr>
   \<and> closed_after_two_joins = fst (step joined_twice (Disconnect ''a''))
   \<and> sockets closed_after_two_joins ''a'' = None
   \<and> roomUsers closed_after_two_joins (Str ''r2'') = None
   \<and> roomUsers closed_after_two_joins (Str ''r1'')
        = Some [(''a'', Obj [(''name'', Str ''alice''), (''socketId'', Str ''a'')])]
   \<and> rooms closed_after_two_joins (Str ''r1'')
        = Some \<lparr>room_id = Str ''r1'', createdAt = 100, users = []\<rparr>"
proof -
  have "reachable closed_after_two_joins"
    unfolding closed_after_two_joins_def joined_twice_def reachable_def
    by (intro reach_run reach_init)
  moreover have "closed_after_two_joins = fst (step joined_twice (Disconnect ''a''))"
    by (simp add: closed_after_two_joins_def run_def)
  ultimately show ?thesis
    by (simp add: closed_after_two_joins_def joined_twice_def present_def run_def init_def
        handler_defs sample_defs Let_def get_def)
qed

theorem second_join_keeps_first_room_presence_witness:
  "''a'' \<in> present joined_twice (Str ''r1'') \<and> ''a'' \<in> present joined_twice (Str ''r2'')
   \<and> sockets closed_after_two_joins ''a'' = None
   \<and> ''a'' \<in> present closed_after_two_joins (Str ''r1'')"
  using second_join_keeps_first_room_presence by (simp add: present_def)

section \<open>Broadcast audiences (C6)\<close>

text \<open>
  Claim C6, as stated, fails: \<^verbatim>\<open>io.to(roomId)\<close> addresses the sockets joined to the room,
  so a \<^verbatim>\<open>video-load\<close> that passes validation, sent by a socket that has not joined the
  room, does not reach its sender; and a \<^verbatim>\<open>video-action\<close> that passes validation inside
  the debounce window reaches nobody.
\<close>

theorem load_from_outside_not_echoed_counterexample:
  "sockets connected_only ''a'' \<noteq> None
   \<and> truthy (get load_data ''roomId'') \<and> truthy (get load_data ''userId'')
   \<and> truthy (get load_data ''type'')
   \<and> snd (video_load connected_only ''a'' load_data 1 2 3) =
       [(ToRoom (Str ''r1''), ''video-load'',
          [(''type'', Str ''youtube''), (''videoId'', Str ''abc''), (''videoUrl'', Undefined),
           (''userId'', Str ''u1''), (''timestamp'', Num 3)])]
   \<and> inbox (video_load connected_only ''a'' load_data 1 2 3) ''a'' ''a'' = []
   \<and> truthy (get (action_data ''play'' (Num 5)) ''roomId'')
   \<and> truthy (get (action_data ''play'' (Num 5)) ''userId'')
   \<and> inbox (video_action seeked ''a'' (action_data ''play'' (Num 5)) 1100) ''a'' ''b'' = []"
  by (simp add: connected_only_def run_def init_def handler_defs sample_defs Let_def get_def
      inbox_def fresh_video_state_def seeked_vs debounced_def seeked_state_def)

text \<open>
  Claim C6, amended. What socket \<open>x\<close> receives from a handler run by socket \<open>c\<close>. A
  \<^verbatim>\<open>video-load\<close> or \<^verbatim>\<open>chat-message\<close> that passes validation reaches every socket joined
  to the room, the sender as well when it is one of them. A \<^verbatim>\<open>video-action\<close> that is
  accepted (validation passed, VideoState found, outside the debounce window) and every
  \<^verbatim>\<open>offer\<close>, \<^verbatim>\<open>answer\<close> and \<^verbatim>\<open>ice-candidate\<close> reach every socket joined to the room
  except the sender, and whatever its outcome a \<^verbatim>\<open>video-action\<close> is never sent back to
  its sender. The sockets joined to a room include every connected socket of its presence
  set, in every state reached with connection ids that are in no presence set when given.
\<close>

theorem broadcast_audiences:
  "(truthy (get dl ''roomId'') \<and> truthy (get dl ''userId'') \<and> truthy (get dl ''type'') \<longrightarrow>
      inbox (video_load s c dl date t_stamp t_emit) c x =
         (if x \<in> members s (get dl ''roomId'')
          then [(''video-load'',
                  [(''type'', get dl ''type''), (''videoId'', get dl ''videoId''),
                   (''videoUrl'', get dl ''videoUrl''), (''userId'', get dl ''userId''),
                   (''timestamp'', Num (of_int t_emit))])]
          else []))
   \<and> (truthy (get dc ''roomId'') \<and> truthy (get dc ''user'') \<and> truthy (get dc ''message'') \<longrightarrow>
      inbox (chat_message s c dc now) c x =
         (if x \<in> members s (get dc ''roomId'')
          then [(''chat-message'',
                  [(''user'', get dc ''user''), (''message'', get dc ''message''),
                   (''timestamp'', Num (of_int now))])]
          else []))
   \<and> (truthy (get da ''roomId'') \<and> truthy (get da ''userId'')
        \<and> roomVideoStates s (get da ''roomId'') = Some v \<and> \<not> debounced v now \<longrightarrow>
      inbox (video_action s c da now) c x =
         (if x \<in> members s (get da ''roomId'') \<and> x \<noteq> c
          then [(''video-action'', AList.update ''timestamp'' (Num (of_int now)) da)] else []))
   \<and> (\<forall>p. (''video-action'', p) \<notin> set (inbox (video_action s c da now) c c))
   \<and> inbox (offer s c ds) c x =
         (if x \<in> members s (get ds ''roomId'') \<and> x \<noteq> c
          then [(''offer'', [(''offer'', get ds ''offer''), (''from'', Str c)])] else [])
   \<and> inbox (answer s c ds) c x =
         (if x \<in> members s (get ds ''roomId'') \<and> x \<noteq> c
          then [(''answer'', [(''answer'', get ds ''answer''), (''from'', Str c)])] else [])
   \<and> inbox (ice_candidate s c ds) c x =
         (if x \<in> members s (get ds ''roomId'') \<and> x \<noteq> c
          then [(''ice-candidate'', [(''candidate'', get ds ''candidate''), (''from'', Str c)])]
          else [])
   \<and> (reach fresh_connect s \<and> x \<in> present s r \<and> sockets s x \<noteq> None \<longrightarrow> x \<in> members s r)"
proof (intro conjI impI)
  assume "truthy (get dl ''roomId'') \<and> truthy (get dl ''userId'') \<and> truthy (get dl ''type'')"
  then obtain v0 where "video_load s c dl date t_stamp t_emit =
        ((initializeRoom (get dl ''roomId'') date s)
           \<lparr>roomVideoStates := (roomVideoStates (initializeRoom (get dl ''roomId'') date s))
              (get dl ''roomId'' \<mapsto>
                 v0\<lparr>vtype := get dl ''type'', videoId := get dl ''videoId'',
                   videoUrl := get dl ''videoUrl'', currentTime := Num 0, isPlaying := False,
                   lastUpdated := Some t_stamp, lastUpdatedBy := get dl ''userId''\<rparr>)\<rparr>,
         [(ToRoom (get dl ''roomId''), ''video-load'',
            [(''type'', get dl ''type''), (''videoId'', get dl ''videoId''),
             (''videoUrl'', get dl ''videoUrl''), (''userId'', get dl ''userId''),
             (''timestamp'', Num (of_int t_emit))])])"
    using video_load_valid [of dl date s c t_stamp t_emit] by blast
  then show "inbox (video_load s c dl date t_stamp t_emit) c x =
         (if x \<in> members s (get dl ''roomId'')
          then [(''video-load'',
                  [(''type'', get dl ''type''), (''videoId'', get dl ''videoId''),
                   (''videoUrl'', get dl ''videoUrl''), (''userId'', get dl ''userId''),
                   (''timestamp'', Num (of_int t_emit))])]
          else [])"
    by (simp add: inbox_def)
next
  assume "truthy (get dc ''roomId'') \<and> truthy (get dc ''user'') \<and> truthy (get dc ''message'')"
  then show "inbox (chat_message s c dc now) c x =
         (if x \<in> members s (get dc ''roomId'')
          then [(''chat-message'',
                  [(''user'', get dc ''user''), (''message'', get dc ''message''),
                   (''timestamp'', Num (of_int now))])]
          else [])"
    by (simp add: inbox_def chat_message_def Let_def)
next
  assume "truthy (get da ''roomId'') \<and> truthy (get da ''userId'')
        \<and> roomVideoStates s (get da ''roomId'') = Some v \<and> \<not> debounced v now"
  then show "inbox (video_action s c da now) c x =
         (if x \<in> members s (get da ''roomId'') \<and> x \<noteq> c
          then [(''video-action'', AList.update ''timestamp'' (Num (of_int now)) da)] else [])"
    by (simp add: inbox_def video_action_accepted)
next
  show "\<forall>p. (''video-action'', p) \<notin> set (inbox (video_action s c da now) c c)"
    using video_action_events [of _ s c da now] by (fastforce simp add: inbox_def)
next
  show "inbox (offer s c ds) c x =
         (if x \<in> members s (get ds ''roomId'') \<and> x \<noteq> c
          then [(''offer'', [(''offer'', get ds ''offer''), (''from'', Str c)])] else [])"
    by (simp add: inbox_def offer_def)
next
  show "inbox (answer s c ds) c x =
         (if x \<in> members s (get ds ''roomId'') \<and> x \<noteq> c
          then [(''answer'', [(''answer'', get ds ''answer''), (''from'', Str c)])] else [])"
    by (simp add: inbox_def answer_def)
next
  show "inbox (ice_candidate s c ds) c x =
         (if x \<in> members s (get ds ''roomId'') \<and> x \<noteq> c
          then [(''ice-candidate'', [(''candidate'', get ds ''candidate''), (''from'', Str c)])]
          else [])"
    by (simp add: inbox_def ice_candidate_def)
next
  assume "reach fresh_connect s \<and> x \<in> present s r \<and> sockets s x \<noteq> None"
  then show "x \<in> members s r" using reach_present_joined by blast
qed

theorem broadcast_audiences_witness:
  "(truthy (get load_data ''roomId'') \<and> truthy (get load_data ''userId'')
      \<and> truthy (get load_data ''type''))
   \<and> (truthy (get chat_data ''roomId'') \<and> truthy (get chat_data ''user'')
      \<and> truthy (get chat_data ''message''))
   \<and> (truthy (get (action_data ''seek'' (Num 9)) ''roomId'')
      \<and> truthy (get (action_data ''seek'' (Num 9)) ''userId'')
      \<and> roomVideoStates seeked (get (action_data ''seek'' (Num 9)) ''roomId'') = Some seeked_state
      \<and> \<not> debounced seeked_state 2000)
   \<and> members seeked (Str ''r1'') = {''a'', ''b''}
   \<and> inbox (video_load seeked ''a'' load_data 1 2 3) ''a'' ''a''
        = inbox (video_load seeked ''a'' load_data 1 2 3) ''a'' ''b''
   \<and> inbox (video_load seeked ''a'' load_data 1 2 3) ''a'' ''b'' \<noteq> []
   \<and> inbox (chat_message seeked ''a'' chat_data 2000) ''a'' ''a''
        = inbox (chat_message seeked ''a'' chat_data 2000) ''a'' ''b''
   \<and> inbox (chat_message seeked ''a'' chat_data 2000) ''a'' ''b'' \<noteq> []
   \<and> inbox (video_action seeked ''a'' (action_data ''seek'' (Num 9)) 2000) ''a'' ''a'' = []
   \<and> inbox (video_action seeked ''a'' (action_data ''seek'' (Num 9)) 2000) ''a'' ''b'' \<noteq> []
   \<and> inbox (offer seeked ''a'' offer_data) ''a'' ''a'' = []
   \<and> inbox (offer seeked ''a'' offer_data) ''a'' ''b'' \<noteq> []
   \<and> inbox (answer seeked ''a'' offer_data) ''a'' ''a'' = []
   \<and> inbox (answer seeked ''a'' offer_data) ''a'' ''b'' \<noteq> []
   \<and> inbox (ice_candidate seeked ''a'' offer_data) ''a'' ''a'' = []
   \<and> inbox (ice_candidate seeked ''a'' offer_data) ''a'' ''b'' \<noteq> []
   \<and> (reach fresh_connect seeked \<and> ''b'' \<in> present seeked (Str ''r1'')
        \<and> sockets seeked ''b'' \<noteq> None)
   \<and> ''b'' \<in> members seeked (Str ''r1'')"
proof -
  have "admitted fresh_connect init [Connect ''a'', Connect ''b'',
      JoinRoom ''a'' (join_data alice ''r1'') 100, JoinRoom ''b'' (join_data bob ''r1'') 200]"
    by (simp add: present_def init_def connect_def)
  with reach_init have "reach fresh_connect two_joined"
    unfolding two_joined_def by (rule reach_admitted)
  then have "reach fresh_connect seeked"
    unfolding seeked_def by (rule reach_admitted) simp
  moreover have "''b'' \<in> present seeked (Str ''r1'')"
    by (simp add: seeked_eq two_joined_present)
  moreover have "sockets seeked ''b'' \<noteq> None"
    by (simp add: seeked_eq two_joined_def run_def init_def handler_defs sample_defs Let_def
        get_def)
  ultimately have hp: "reach fresh_connect seeked \<and> ''b'' \<in> present seeked (Str ''r1'')
        \<and> sockets seeked ''b'' \<noteq> None"
    by simp
  have hl: "truthy (get load_data ''roomId'') \<and> truthy (get load_data ''userId'')
      \<and> truthy (get load_data ''type'')"
    by (simp add: load_data_def get_def)
  have hc: "truthy (get chat_data ''roomId'') \<and> truthy (get chat_data ''user'')
      \<and> truthy (get chat_data ''message'')"
    by (simp add: chat_data_def alice_def get_def)
  have ha: "truthy (get (action_data ''seek'' (Num 9)) ''roomId'')
      \<and> truthy (get (action_data ''seek'' (Num 9)) ''userId'')
      \<and> roomVideoStates seeked (get (action_data ''seek'' (Num 9)) ''roomId'') = Some seeked_state
      \<and> \<not> debounced seeked_state 2000"
    by (simp add: action_data_def get_def seeked_vs debounced_def seeked_state_def)
  have r: "get load_data ''roomId'' = Str ''r1''" "get chat_data ''roomId'' = Str ''r1''"
    "get (action_data ''seek'' (Num 9)) ''roomId'' = Str ''r1''"
    "get offer_data ''roomId'' = Str ''r1''"
    by (simp_all add: load_data_def chat_data_def action_data_def offer_data_def get_def)
  note m = seeked_members
  note at_a = broadcast_audiences [where s = seeked and c = "''a''" and x = "''a''"
      and dl = load_data and dc = chat_data and da = "action_data ''seek'' (Num 9)"
      and ds = offer_data and v = seeked_state and now = 2000 and date = 1 and t_stamp = 2
      and t_emit = 3]
  note at_b = broadcast_audiences [where s = seeked and c = "''a''" and x = "''b''"
      and dl = load_data and dc = chat_data and da = "action_data ''seek'' (Num 9)"
      and ds = offer_data and v = seeked_state and now = 2000 and date = 1 and t_stamp = 2
      and t_emit = 3 and r = "Str ''r1''"]
  have l: "inbox (video_load seeked ''a'' load_data 1 2 3) ''a'' ''a''
        = inbox (video_load seeked ''a'' load_data 1 2 3) ''a'' ''b''
      \<and> inbox (video_load seeked ''a'' load_data 1 2 3) ''a'' ''b'' \<noteq> []"
    using at_a [THEN conjunct1, THEN mp, OF hl] at_b [THEN conjunct1, THEN mp, OF hl]
    by (simp add: r m)
  have ch: "inbox (chat_message seeked ''a'' chat_data 2000) ''a'' ''a''
        = inbox (chat_message seeked ''a'' chat_data 2000) ''a'' ''b''
      \<and> inbox (chat_message seeked ''a'' chat_data 2000) ''a'' ''b'' \<noteq> []"
    using at_a [THEN conjunct2, THEN conjunct1, THEN mp, OF hc]
      at_b [THEN conjunct2, THEN conjunct1, THEN mp, OF hc]
    by (simp add: r m)
  have ac: "inbox (video_action seeked ''a'' (action_data ''seek'' (Num 9)) 2000) ''a'' ''a'' = []
      \<and> inbox (video_action seeked ''a'' (action_data ''seek'' (Num 9)) 2000) ''a'' ''b'' \<noteq> []"
    using at_a [THEN conjunct2, THEN conjunct2, THEN conjunct1, THEN mp, OF ha]
      at_b [THEN conjunct2, THEN conjunct2, THEN conjunct1, THEN mp, OF ha]
    by (simp add: r m)
  have sig: "inbox (offer seeked ''a'' offer_data) ''a'' ''a'' = []
      \<and> inbox (offer seeked ''a'' offer_data) ''a'' ''b'' \<noteq> []
      \<and> inbox (answer seeked ''a'' offer_data) ''a'' ''a'' = []
      \<and> inbox (answer seeked ''a'' offer_data) ''a'' ''b'' \<noteq> []
      \<and> inbox (ice_candidate seeked ''a'' offer_data) ''a'' ''a'' = []
      \<and> inbox (ice_candidate seeked ''a'' offer_data) ''a'' ''b'' \<noteq> []"
    using at_a [THEN conjunct2, THEN conjunct2, THEN conjunct2, THEN conjunct2]
      at_b [THEN conjunct2, THEN conjunct2, THEN conjunct2, THEN conjunct2]
    by (simp add: r m)
  note j = at_b [THEN conjunct2, THEN conjunct2, THEN conjunct2, THEN conjunct2,
      THEN conjunct2, THEN conjunct2, THEN conjunct2, THEN mp, OF hp]
  from hl hc ha m l ch ac sig hp j show ?thesis by blast
qed

section \<open>Restart (C7)\<close>

text \<open>
  Claim C7. An accepted \<^verbatim>\<open>restart\<close> action (validation passed, VideoState found, outside
  the debounce window) sets the position to 0 and the playing flag to true, whatever
  \<^verbatim>\<open>time\<close> the event carries.
\<close>

theorem restart_sets_position_zero_and_playing:
  assumes "truthy (get data ''roomId'')" and "truthy (get data ''userId'')"
    and "roomVideoStates s (get data ''roomId'') = Some v"
    and "\<not> debounced v now"
    and "get data ''action'' = Str ''restart''"
  shows "\<exists>v'. roomVideoStates (fst (video_action s c data now)) (get data ''roomId'') = Some v'
     \<and> currentTime v' = Num 0 \<and> isPlaying v' = True"
  using assms by (simp add: video_action_accepted apply_action_def)

theorem restart_sets_position_zero_and_playing_witness:
  "truthy (get (action_data ''restart'' (Num 42)) ''roomId'')
   \<and> truthy (get (action_data ''restart'' (Num 42)) ''userId'')
   \<and> roomVideoStates seeked (get (action_data ''restart'' (Num 42)) ''roomId'') = Some seeked_state
   \<and> \<not> debounced seeked_state 2000
   \<and> get (action_data ''restart'' (Num 42)) ''action'' = Str ''restart''
   \<and> get (action_data ''restart'' (Num 42)) ''time'' = Num 42
   \<and> (\<exists>v'. roomVideoStates (fst (video_action seeked ''a'' (action_data ''restart'' (Num 42)) 2000))
              (get (action_data ''restart'' (Num 42)) ''roomId'') = Some v'
          \<and> currentTime v' = Num 0 \<and> isPlaying v' = True)"
proof -
  have h1: "truthy (get (action_data ''restart'' (Num 42)) ''roomId'')"
    and h2: "truthy (get (action_data ''restart'' (Num 42)) ''userId'')"
    and h5: "get (action_data ''restart'' (Num 42)) ''action'' = Str ''restart''"
    and h6: "get (action_data ''restart'' (Num 42)) ''time'' = Num 42"
    by (simp_all add: action_data_def get_def)
  have h3: "roomVideoStates seeked (get (action_data ''restart'' (Num 42)) ''roomId'') = Some seeked_state"
    by (simp add: action_data_def get_def seeked_vs)
  have h4: "\<not> debounced seeked_state 2000"
    by (simp add: debounced_def seeked_state_def)
  from restart_sets_position_zero_and_playing [OF h1 h2 h3 h4 h5, of "''a''"] h1 h2 h3 h4 h5 h6
  show ?thesis by blast
qed

section \<open>Disconnect without a join (C8)\<close>

text \<open>
  Claim C8. When a socket disconnects whose \<^verbatim>\<open>socket.data\<close> does not hold both a room id
  and a user (it holds neither when the socket never joined), nothing is emitted, to any
  room or to the socket, and the three room maps are unchanged.
\<close>

theorem disconnect_without_join_is_noop:
  assumes "sockets s c = Some d"
    and "\<not> (truthy (data_roomId d) \<and> truthy (data_user d))"
  shows "snd (step s (Disconnect c)) = []
     \<and> rooms (fst (step s (Disconnect c))) = rooms s
     \<and> roomVideoStates (fst (step s (Disconnect c))) = roomVideoStates s
     \<and> roomUsers (fst (step s (Disconnect c))) = roomUsers s"
  using assms by (auto simp add: disconnect_def Let_def)

theorem disconnect_without_join_is_noop_witness:
  "sockets (run two_joined [Connect ''z'']) ''z'' = Some \<lparr>data_roomId = Undefined, data_user = Undefined\<rparr>
   \<and> \<not> (truthy (data_roomId \<lparr>data_roomId = Undefined, data_user = Undefined\<rparr>)
          \<and> truthy (data_user \<lparr>data_roomId = Undefined, data_user = Undefined\<rparr>))
   \<and> snd (step (run two_joined [Connect ''z'']) (Disconnect ''z'')) = []
   \<and> rooms (fst (step (run two_joined [Connect ''z'']) (Disconnect ''z''))) = rooms (run two_joined [Connect ''z''])
   \<and> roomVideoStates (fst (step (run two_joined [Connect ''z'']) (Disconnect ''z'')))
        = roomVideoStates (run two_joined [Connect ''z''])
   \<and> roomUsers (fst (step (run two_joined [Connect ''z'']) (Disconnect ''z'')))
        = roomUsers (run two_joined [Connect ''z''])
   \<and> roomUsers (run two_joined [Connect ''z'']) (Str ''r1'') \<noteq> None"
proof -
  have z: "sockets two_joined ''z'' = None"
    by (simp add: two_joined_def run_def init_def handler_defs sample_defs Let_def get_def)
  have h1: "sockets (run two_joined [Connect ''z'']) ''z''
      = Some \<lparr>data_roomId = Undefined, data_user = Undefined\<rparr>"
    by (simp add: run_def z connect_def)
  have h2: "\<not> (truthy (data_roomId \<lparr>data_roomId = Undefined, data_user = Undefined\<rparr>)
          \<and> truthy (data_user \<lparr>data_roomId = Undefined, data_user = Undefined\<rparr>))"
    by simp
  have h3: "roomUsers (run two_joined [Connect ''z'']) (Str ''r1'') \<noteq> None"
    using two_joined_present [of "Str ''r1''"] by (auto simp add: run_def z connect_def present_def split: option.splits)
  from disconnect_without_join_is_noop [OF h1 h2] h1 h2 h3 show ?thesis by blast
qed

section \<open>Unknown actions (C9)\<close>

text \<open>
  Claim C9. A \<^verbatim>\<open>video-action\<close> that passes validation, finds the VideoState and is outside
  the debounce window, with an action that is none of play, pause, seek and restart:
  position and playing flag stay as they are, \<open>lastUpdated\<close> and \<open>lastUpdatedBy\<close> are
  overwritten, and the event with the server's timestamp reaches exactly the other sockets
  of the room; the sender receives nothing, so no error.
\<close>

theorem unknown_action_stamps_and_broadcasts:
  assumes "truthy (get data ''roomId'')" and "truthy (get data ''userId'')"
    and "roomVideoStates s (get data ''roomId'') = Some v"
    and "\<not> debounced v now"
    and "get data ''action'' \<notin> {Str ''play'', Str ''pause'', Str ''seek'', Str ''restart''}"
  shows "video_action s c data now =
           (s\<lparr>roomVideoStates := (roomVideoStates s)(get data ''roomId'' \<mapsto>
                v\<lparr>lastUpdated := Some now, lastUpdatedBy := get data ''userId''\<rparr>)\<rparr>,
            [(ToRoomExceptSender (get data ''roomId''), ''video-action'',
              AList.update ''timestamp'' (Num (of_int now)) data)])
     \<and> map_of (AList.update ''timestamp'' (Num (of_int now)) data) ''timestamp''
           = Some (Num (of_int now))
     \<and> inbox (video_action s c data now) c x =
           (if x \<in> members s (get data ''roomId'') \<and> x \<noteq> c
            then [(''video-action'', AList.update ''timestamp'' (Num (of_int now)) data)] else [])"
  using assms by (simp add: video_action_accepted apply_action_def inbox_def update_conv')

theorem unknown_action_stamps_and_broadcasts_witness:
  "truthy (get (action_data ''rewind'' (Num 7)) ''roomId'')
   \<and> truthy (get (action_data ''rewind'' (Num 7)) ''userId'')
   \<and> roomVideoStates seeked (get (action_data ''rewind'' (Num 7)) ''roomId'') = Some seeked_state
   \<and> \<not> debounced seeked_state 2000
   \<and> get (action_data ''rewind'' (Num 7)) ''action''
        \<notin> {Str ''play'', Str ''pause'', Str ''seek'', Str ''restart''}
   \<and> video_action seeked ''a'' (action_data ''rewind'' (Num 7)) 2000 =
       (seeked\<lparr>roomVideoStates := (roomVideoStates seeked)(Str ''r1'' \<mapsto>
            seeked_state\<lparr>lastUpdated := Some 2000, lastUpdatedBy := Str ''u1''\<rparr>)\<rparr>,
        [(ToRoomExceptSender (Str ''r1''), ''video-action'',
          [(''roomId'', Str ''r1''), (''action'', Str ''rewind''), (''time'', Num 7),
           (''userId'', Str ''u1''), (''timestamp'', Num 2000)])])
   \<and> inbox (video_action seeked ''a'' (action_data ''rewind'' (Num 7)) 2000) ''a'' ''b'' =
       [(''video-action'',
          [(''roomId'', Str ''r1''), (''action'', Str ''rewind''), (''time'', Num 7),
           (''userId'', Str ''u1''), (''timestamp'', Num 2000)])]
   \<and> inbox (video_action seeked ''a'' (action_data ''rewind'' (Num 7)) 2000) ''a'' ''a'' = []"
proof -
  have h1: "truthy (get (action_data ''rewind'' (Num 7)) ''roomId'')"
    and h2: "truthy (get (action_data ''rewind'' (Num 7)) ''userId'')"
    and h5: "get (action_data ''rewind'' (Num 7)) ''action''
        \<notin> {Str ''play'', Str ''pause'', Str ''seek'', Str ''restart''}"
    by (simp_all add: action_data_def get_def)
  have h3: "roomVideoStates seeked (get (action_data ''rewind'' (Num 7)) ''roomId'') = Some seeked_state"
    by (simp add: action_data_def get_def seeked_vs)
  have h4: "\<not> debounced seeked_state 2000"
    by (simp add: debounced_def seeked_state_def)
  have g: "get (action_data ''rewind'' (Num 7)) ''roomId'' = Str ''r1''"
    "get (action_data ''rewind'' (Num 7)) ''userId'' = Str ''u1''"
    "AList.update ''timestamp'' (Num 2000) (action_data ''rewind'' (Num 7)) =
       [(''roomId'', Str ''r1''), (''action'', Str ''rewind''), (''time'', Num 7),
        (''userId'', Str ''u1''), (''timestamp'', Num 2000)]"
    by (simp_all add: action_data_def get_def)
  note at_b = unknown_action_stamps_and_broadcasts [OF h1 h2 h3 h4 h5, of "''a''" "''b''"]
  note at_a = unknown_action_stamps_and_broadcasts [OF h1 h2 h3 h4 h5, of "''a''" "''a''"]
  have res: "video_action seeked ''a'' (action_data ''rewind'' (Num 7)) 2000 =
       (seeked\<lparr>roomVideoStates := (roomVideoStates seeked)(Str ''r1'' \<mapsto>
            seeked_state\<lparr>lastUpdated := Some 2000, lastUpdatedBy := Str ''u1''\<rparr>)\<rparr>,
        [(ToRoomExceptSender (Str ''r1''), ''video-action'',
          [(''roomId'', Str ''r1''), (''action'', Str ''rewind''), (''time'', Num 7),
           (''userId'', Str ''u1''), (''timestamp'', Num 2000)])])"
    using at_b [THEN conjunct1] by (simp add: g)
  have to_b: "inbox (video_action seeked ''a'' (action_data ''rewind'' (Num 7)) 2000) ''a'' ''b'' =
       [(''video-action'',
          [(''roomId'', Str ''r1''), (''action'', Str ''rewind''), (''time'', Num 7),
           (''userId'', Str ''u1''), (''timestamp'', Num 2000)])]"
    using at_b [THEN conjunct2, THEN conjunct2] by (simp add: g seeked_members)
  have to_a: "inbox (video_action seeked ''a'' (action_data ''rewind'' (Num 7)) 2000) ''a'' ''a'' = []"
    using at_a [THEN conjunct2, THEN conjunct2] by (simp add: g seeked_members)
  from h1 h2 h3 h4 h5 res to_b to_a show ?thesis by blast
qed

section \<open>An action after a load (C10)\<close>

text \<open>
  Claim C10, as stated, fails: when the room is emptied between the load and the action,
  its VideoState is deleted, and the action, 100ms after the load, is answered with the
  error for an unknown room.
\<close>

theorem action_after_load_and_leave_gets_error_counterexample:
  "roomVideoStates loaded_alone (Str ''r1'') =
     Some \<lparr>vtype = Str ''youtube'', videoId = Str ''abc'', videoUrl = Undefined,
            currentTime = Num 0, isPlaying = False, lastUpdated = Some 5000,
            lastUpdatedBy = Str ''u1''\<rparr>
   \<and> loaded_then_left = fst (step loaded_alone (LeaveRoom ''a'' leave_data))
   \<and> roomVideoStates loaded_then_left (Str ''r1'') = None
   \<and> (5100::int) - 5000 < 300
   \<and> video_action loaded_then_left ''a'' (action_data ''play'' (Num 5)) 5100 =
       (loaded_then_left, [(ToSender, ''error'', [(''message'', Str ''Room not found'')])])"
  by (simp add: loaded_alone_vs loaded_then_left_maps video_action_def Let_def get_def
      action_data_def error_emit_def, simp add: loaded_then_left_def run_def)

text \<open>
  Claim C10, amended. A \<^verbatim>\<open>video-load\<close> that passes validation is applied whatever the
  VideoState held before (there is no debounce test on this path): it stamps
  \<open>lastUpdated\<close> with its clock reading, which is nonzero, and is broadcast. A
  \<^verbatim>\<open>video-action\<close> for the same room that passes validation and is handled less than 300ms
  after that reading changes nothing and emits nothing, when it follows the load directly
  and in every later state whose VideoState of the room still carries the stamp.
\<close>

theorem action_after_load_dropped:
  assumes "truthy (get ld ''roomId'')" and "truthy (get ld ''userId'')" and "truthy (get ld ''type'')"
    and "get ad ''roomId'' = get ld ''roomId''" and "truthy (get ad ''userId'')"
    and "t_stamp \<noteq> 0" and "now - t_stamp < 300"
  shows "(\<exists>v p. roomVideoStates (fst (video_load s c ld date t_stamp t_emit)) (get ld ''roomId'') = Some v
            \<and> lastUpdated v = Some t_stamp
            \<and> snd (video_load s c ld date t_stamp t_emit) = [(ToRoom (get ld ''roomId''), ''video-load'', p)])
     \<and> video_action (fst (video_load s c ld date t_stamp t_emit)) c' ad now
         = (fst (video_load s c ld date t_stamp t_emit), [])
     \<and> (\<forall>s' v'. roomVideoStates s' (get ld ''roomId'') = Some v' \<and> lastUpdated v' = Some t_stamp
           \<longrightarrow> video_action s' c' ad now = (s', []))"
proof -
  obtain v0 where ld: "video_load s c ld date t_stamp t_emit =
        ((initializeRoom (get ld ''roomId'') date s)
           \<lparr>roomVideoStates := (roomVideoStates (initializeRoom (get ld ''roomId'') date s))
              (get ld ''roomId'' \<mapsto>
                 v0\<lparr>vtype := get ld ''type'', videoId := get ld ''videoId'',
                   videoUrl := get ld ''videoUrl'', currentTime := Num 0, isPlaying := False,
                   lastUpdated := Some t_stamp, lastUpdatedBy := get ld ''userId''\<rparr>)\<rparr>,
         [(ToRoom (get ld ''roomId''), ''video-load'',
            [(''type'', get ld ''type''), (''videoId'', get ld ''videoId''),
             (''videoUrl'', get ld ''videoUrl''), (''userId'', get ld ''userId''),
             (''timestamp'', Num (of_int t_emit))])])"
    using video_load_valid [OF assms(1,2,3)] by blast
  let ?v = "v0\<lparr>vtype := get ld ''type'', videoId := get ld ''videoId'',
                   videoUrl := get ld ''videoUrl'', currentTime := Num 0, isPlaying := False,
                   lastUpdated := Some t_stamp, lastUpdatedBy := get ld ''userId''\<rparr>"
  have vs: "roomVideoStates (fst (video_load s c ld date t_stamp t_emit)) (get ld ''roomId'') = Some ?v"
    by (simp add: ld)
  have later: "video_action s' c' ad now = (s', [])"
    if "roomVideoStates s' (get ld ''roomId'') = Some v'" and "lastUpdated v' = Some t_stamp"
    for s' v'
  proof -
    from that(2) assms(6,7) have "debounced v' now" by (simp add: debounced_def)
    with that(1) assms(1,4,5) show ?thesis by (simp add: video_action_debounced)
  qed
  have "lastUpdated ?v = Some t_stamp" by simp
  with vs have "video_action (fst (video_load s c ld date t_stamp t_emit)) c' ad now
         = (fst (video_load s c ld date t_stamp t_emit), [])"
    by (rule later)
  moreover have "\<exists>p. snd (video_load s c ld date t_stamp t_emit) = [(ToRoom (get ld ''roomId''), ''video-load'', p)]"
    by (simp add: ld)
  moreover have "lastUpdated ?v = Some t_stamp" by simp
  ultimately show ?thesis using vs later by blast
qed

theorem action_after_load_dropped_witness:
  "truthy (get load_data ''roomId'') \<and> truthy (get load_data ''userId'')
   \<and> truthy (get load_data ''type'')
   \<and> get (action_data ''play'' (Num 5)) ''roomId'' = get load_data ''roomId''
   \<and> truthy (get (action_data ''play'' (Num 5)) ''userId'')
   \<and> (5000::int) \<noteq> 0 \<and> (5299::int) - 5000 < 300
   \<and> (\<exists>v p. roomVideoStates (fst (video_load seeked ''a'' load_data 4999 5000 5001)) (get load_data ''roomId'') = Some v
            \<and> lastUpdated v = Some 5000
            \<and> snd (video_load seeked ''a'' load_data 4999 5000 5001) = [(ToRoom (get load_data ''roomId''), ''video-load'', p)])
   \<and> video_action (fst (video_load seeked ''a'' load_data 4999 5000 5001)) ''b''
        (action_data ''play'' (Num 5)) 5299
       = (fst (video_load seeked ''a'' load_data 4999 5000 5001), [])
   \<and> (\<exists>v'. roomVideoStates
              (fst (join_room (fst (video_load seeked ''a'' load_data 4999 5000 5001)) ''b''
                     (join_data bob ''r1'') 5100))
              (get load_data ''roomId'') = Some v'
          \<and> lastUpdated v' = Some 5000)
   \<and> video_action
        (fst (join_room (fst (video_load seeked ''a'' load_data 4999 5000 5001)) ''b''
               (join_data bob ''r1'') 5100))
        ''b'' (action_data ''play'' (Num 5)) 5299
       = (fst (join_room (fst (video_load seeked ''a'' load_data 4999 5000 5001)) ''b''
                 (join_data bob ''r1'') 5100), [])"
proof -
  have h1: "truthy (get load_data ''roomId'')" and h2: "truthy (get load_data ''userId'')"
    and h3: "truthy (get load_data ''type'')"
    and h4: "get (action_data ''play'' (Num 5)) ''roomId'' = get load_data ''roomId''"
    and h5: "truthy (get (action_data ''play'' (Num 5)) ''userId'')"
    by (simp_all add: action_data_def load_data_def get_def)
  have h6: "(5000::int) \<noteq> 0" and h7: "(5299::int) - 5000 < 300" by simp_all
  note t = action_after_load_dropped [OF h1 h2 h3 h4 h5 h6 h7,
      of seeked "''a''" 4999 5001 "''b''"]
  let ?post = "fst (video_load seeked ''a'' load_data 4999 5000 5001)"
  let ?later = "fst (join_room ?post ''b'' (join_data bob ''r1'') 5100)"
  from t [THEN conjunct1] obtain v where
    v: "roomVideoStates ?post (get load_data ''roomId'') = Some v" "lastUpdated v = Some 5000"
    by blast
  from v(1) have kept: "roomVideoStates ?later (get load_data ''roomId'') = Some v"
    by (rule join_room_keeps_video_state)
  with v(2) have e: "\<exists>v'. roomVideoStates ?later (get load_data ''roomId'') = Some v'
      \<and> lastUpdated v' = Some 5000"
    by blast
  from t [THEN conjunct2, THEN conjunct2] kept v(2)
  have d: "video_action ?later ''b'' (action_data ''play'' (Num 5)) 5299 = (?later, [])"
    by blast
  show ?thesis
    by (rule conjI [OF h1 conjI [OF h2 conjI [OF h3 conjI [OF h4 conjI [OF h5 conjI [OF h6
          conjI [OF h7 conjI [OF t [THEN conjunct1] conjI [OF t [THEN conjunct2, THEN conjunct1]
          conjI [OF e d]]]]]]]]]])
qed

end
